theory Spec2Isabelle
  imports Complex_Main "HOL-Library.Char_ord" "HOL-Library.List_Lexorder"
    "HOL-Library.Product_Lexorder" "HOL-Library.Multiset"
begin

section \<open>Chess.com performance dashboard: data model\<close>

text \<open>
  The dashboard script \<^verbatim>\<open>chesscom.py\<close> downloads a player's monthly game archives,
  turns every accepted game into one row of a data frame and derives several tables and
  charts from the rows.  A data frame is modelled as the list of its rows, in row order.
  Python strings are modelled as \<^typ>\<open>string\<close> (ASCII), Python integers as \<^typ>\<open>int\<close>,
  and the floating-point averages and percentages as exact rationals.
\<close>

datatype status = Win | Draw | Loss

datatype py_error = ValueError | IndexError

record player =
  p_username :: string
  p_rating :: int
  p_result :: string

text \<open>
  One entry of the \<^verbatim>\<open>games\<close> array of a monthly archive.  The keys the script reads
  with \<^verbatim>\<open>game[...]\<close> are fields; the two keys it reads with \<^verbatim>\<open>game.get(...)\<close> may be
  absent and are options.
\<close>

record game =
  end_time :: int
  time_class :: "string option"
  rules :: "string option"
  white :: player
  black :: player

text \<open>
  One row of the data frame built by \<^verbatim>\<open>process_all_modes\<close>.  \<open>Date\<close> is the naive local
  date-time of the end of the game, counted in seconds since 1970-01-01 00:00:00 on the
  local clock.
\<close>

record match_record =
  Date :: int
  Rating :: int
  Mode :: string
  Status :: status
  Is960 :: bool

section \<open>String helpers of the Python library\<close>

definition lower_char :: "char \<Rightarrow> char" where
  "lower_char c =
     (let n = (of_char c :: nat) in if 65 \<le> n \<and> n \<le> 90 then char_of (n + 32) else c)"

definition upper_char :: "char \<Rightarrow> char" where
  "upper_char c =
     (let n = (of_char c :: nat) in if 97 \<le> n \<and> n \<le> 122 then char_of (n - 32) else c)"

definition lower :: "string \<Rightarrow> string" where
  "lower s = map lower_char s"

fun capitalize :: "string \<Rightarrow> string" where
  "capitalize [] = []"
| "capitalize (c # cs) = upper_char c # lower cs"

definition is_digit :: "char \<Rightarrow> bool" where
  "is_digit c = (let n = (of_char c :: nat) in 48 \<le> n \<and> n \<le> 57)"

definition digit_val :: "char \<Rightarrow> int" where
  "digit_val c = int (of_char c) - 48"

text \<open>The ASCII characters that Python counts as white space.\<close>

definition is_space :: "char \<Rightarrow> bool" where
  "is_space c = (let n = (of_char c :: nat) in n = 32 \<or> (9 \<le> n \<and> n \<le> 13) \<or> (28 \<le> n \<and> n \<le> 31))"

definition strip :: "string \<Rightarrow> string" where
  "strip s = rev (dropWhile is_space (rev (dropWhile is_space s)))"

text \<open>
  \<^verbatim>\<open>s.split(sep)\<close> with a one-character separator: the pieces between the separators,
  always at least one piece.
\<close>

fun str_split :: "char \<Rightarrow> string \<Rightarrow> string list" where
  "str_split sep [] = [[]]"
| "str_split sep (c # cs) =
     (if c = sep then [] # str_split sep cs
      else (case str_split sep cs of
              [] \<Rightarrow> [[c]]
            | p # ps \<Rightarrow> (c # p) # ps))"

text \<open>
  \<^verbatim>\<open>int(s)\<close> on a string, base ten: surrounding white space is dropped, one sign is
  allowed, and the digits may be grouped by single underscores.  Anything else raises
  \<^verbatim>\<open>ValueError\<close>.  (The interpreter's limit on the number of digits is not modelled.)
\<close>

fun after_digit :: "int \<Rightarrow> string \<Rightarrow> int option" where
  "after_digit acc [] = Some acc"
| "after_digit acc (c # cs) =
     (if is_digit c then after_digit (acc * 10 + digit_val c) cs
      else if c = CHR ''_'' then
        (case cs of
           [] \<Rightarrow> None
         | d # ds \<Rightarrow> if is_digit d then after_digit (acc * 10 + digit_val d) ds else None)
      else None)"

definition digits_value :: "string \<Rightarrow> int option" where
  "digits_value s =
     (case s of
        [] \<Rightarrow> None
      | c # cs \<Rightarrow> if is_digit c then after_digit (digit_val c) cs else None)"

definition py_int :: "string \<Rightarrow> py_error + int" where
  "py_int s =
     (case strip s of
        [] \<Rightarrow> Inl ValueError
      | c # cs \<Rightarrow>
          if c = CHR ''-'' then
            (case digits_value cs of None \<Rightarrow> Inl ValueError | Some n \<Rightarrow> Inr (- n))
          else if c = CHR ''+'' then
            (case digits_value cs of None \<Rightarrow> Inl ValueError | Some n \<Rightarrow> Inr n)
          else
            (case digits_value (c # cs) of None \<Rightarrow> Inl ValueError | Some n \<Rightarrow> Inr n))"

section \<open>Dates\<close>

text \<open>
  The value of \<^verbatim>\<open>datetime.strptime(s, "%Y-%m-%d")\<close>: a date at midnight.  The calendar
  arithmetic follows the proleptic Gregorian calendar of Python's \<^verbatim>\<open>datetime\<close>.
\<close>

record datetime =
  dt_year :: int
  dt_month :: int
  dt_day :: int

definition is_leap :: "int \<Rightarrow> bool" where
  "is_leap y = (y mod 4 = 0 \<and> (y mod 100 \<noteq> 0 \<or> y mod 400 = 0))"

definition days_before_year :: "int \<Rightarrow> int" where
  "days_before_year y = (y - 1) * 365 + (y - 1) div 4 - (y - 1) div 100 + (y - 1) div 400"

definition days_in_month :: "int \<Rightarrow> int \<Rightarrow> int" where
  "days_in_month y m =
     (if m = 2 \<and> is_leap y then 29
      else [31, 28, 31, 30, 31, 30, 31, 31, 30, 31, 30, 31] ! nat (m - 1))"

definition days_before_month :: "int \<Rightarrow> int \<Rightarrow> int" where
  "days_before_month y m =
     [0, 31, 59, 90, 120, 151, 181, 212, 243, 273, 304, 334] ! nat (m - 1)
       + (if m > 2 \<and> is_leap y then 1 else 0)"

text \<open>Days from 1970-01-01 to the given date (\<^verbatim>\<open>toordinal\<close> minus that of the epoch).\<close>

definition epoch_days :: "datetime \<Rightarrow> int" where
  "epoch_days d =
     days_before_year (dt_year d) + days_before_month (dt_year d) (dt_month d) + dt_day d
       - 719163"

text \<open>
  The regular expression that \<^verbatim>\<open>strptime\<close> builds for \<^verbatim>\<open>%m\<close> is
  \<^verbatim>\<open>1[0-2]|0[1-9]|[1-9]\<close> and for \<^verbatim>\<open>%d\<close> it is \<^verbatim>\<open>3[0-1]|[1-2]\d|0[1-9]|[1-9]| [1-9]\<close>;
  the first alternative that matches is taken.  Each function returns the matched text
  and the rest of the input.
\<close>

definition in_range :: "char \<Rightarrow> char \<Rightarrow> char \<Rightarrow> bool" where
  "in_range lo hi c = (of_char lo \<le> (of_char c :: nat) \<and> (of_char c :: nat) \<le> of_char hi)"

fun match_m :: "string \<Rightarrow> (string \<times> string) option" where
  "match_m (a # b # r) =
     (if a = CHR ''1'' \<and> in_range CHR ''0'' CHR ''2'' b then Some ([a, b], r)
      else if a = CHR ''0'' \<and> in_range CHR ''1'' CHR ''9'' b then Some ([a, b], r)
      else if in_range CHR ''1'' CHR ''9'' a then Some ([a], b # r)
      else None)"
| "match_m [a] = (if in_range CHR ''1'' CHR ''9'' a then Some ([a], []) else None)"
| "match_m [] = None"

fun match_d :: "string \<Rightarrow> (string \<times> string) option" where
  "match_d (a # b # r) =
     (if a = CHR ''3'' \<and> in_range CHR ''0'' CHR ''1'' b then Some ([a, b], r)
      else if in_range CHR ''1'' CHR ''2'' a \<and> is_digit b then Some ([a, b], r)
      else if a = CHR ''0'' \<and> in_range CHR ''1'' CHR ''9'' b then Some ([a, b], r)
      else if in_range CHR ''1'' CHR ''9'' a then Some ([a], b # r)
      else if a = CHR '' '' \<and> in_range CHR ''1'' CHR ''9'' b then Some ([a, b], r)
      else None)"
| "match_d [a] = (if in_range CHR ''1'' CHR ''9'' a then Some ([a], []) else None)"
| "match_d [] = None"

text \<open>
  \<^verbatim>\<open>datetime.strptime(s, "%Y-%m-%d")\<close>; \<open>None\<close> stands for the \<^verbatim>\<open>ValueError\<close> it
  raises when the text does not match the format, when text remains after the match, or
  when the numbers are not a date of the calendar (year 0, 30 February).
\<close>

definition make_date :: "string \<Rightarrow> string \<Rightarrow> string \<Rightarrow> datetime option" where
  "make_date ys ms ds =
     (case (py_int ys, py_int ms, py_int ds) of
        (Inr y, Inr m, Inr d) \<Rightarrow>
          if 1 \<le> y \<and> 1 \<le> m \<and> m \<le> 12 \<and> 1 \<le> d \<and> d \<le> days_in_month y m
          then Some \<lparr>dt_year = y, dt_month = m, dt_day = d\<rparr>
          else None
      | _ \<Rightarrow> None)"

definition strptime_ymd :: "string \<Rightarrow> datetime option" where
  "strptime_ymd s =
     (case s of
        y1 # y2 # y3 # y4 # r0 \<Rightarrow>
          if is_digit y1 \<and> is_digit y2 \<and> is_digit y3 \<and> is_digit y4 then
            (case r0 of
               [] \<Rightarrow> None
             | dash1 # r1 \<Rightarrow>
                 if dash1 = CHR ''-'' then
                   (case match_m r1 of
                      None \<Rightarrow> None
                    | Some (ms, r2) \<Rightarrow>
                        (case r2 of
                           [] \<Rightarrow> None
                         | dash2 # r3 \<Rightarrow>
                             if dash2 = CHR ''-'' then
                               (case match_d r3 of
                                  None \<Rightarrow> None
                                | Some (ds, r4) \<Rightarrow>
                                    if r4 = [] then make_date [y1, y2, y3, y4] ms ds
                                    else None)
                             else None))
                 else None)
          else None
      | _ \<Rightarrow> None)"

text \<open>
  The machine's time zone is a parameter \<open>tz\<close>: the offset of the local clock from UTC
  in seconds, taken as constant (no daylight-saving changes).
  \<^verbatim>\<open>datetime.fromtimestamp(t)\<close> is the naive date-time on the local clock.

  \<^verbatim>\<open>dt.timestamp()\<close> of a naive date-time \<open>t\<close> looks for the instant \<open>u\<close> whose local
  time is \<open>t\<close>: it takes the local time of \<open>t\<close> read as an instant, then that of the
  candidate \<open>u\<close>, then that of the instant one day before \<open>u\<close>, and builds a date-time
  from each.  A date-time has a year from 1 to 9999; outside it the construction raises
  \<^verbatim>\<open>ValueError\<close>.  With a constant offset the three local times are \<open>t + tz\<close>, \<open>t\<close>
  and \<open>t - 86400\<close>.  (This is the behaviour where the platform's \<^verbatim>\<open>localtime\<close> accepts
  every instant, as on Linux.)
\<close>

definition naive_seconds :: "datetime \<Rightarrow> int" where
  "naive_seconds d = epoch_days d * 86400"

definition year_in_range :: "int \<Rightarrow> bool" where
  "year_in_range t =
     (naive_seconds \<lparr>dt_year = 1, dt_month = 1, dt_day = 1\<rparr> \<le> t
      \<and> t < naive_seconds \<lparr>dt_year = 10000, dt_month = 1, dt_day = 1\<rparr>)"

definition timestamp :: "int \<Rightarrow> datetime \<Rightarrow> py_error + int" where
  "timestamp tz d =
     (let t = naive_seconds d in
      if year_in_range (t + tz) \<and> year_in_range t \<and> year_in_range (t - 86400)
      then Inr (t - tz)
      else Inl ValueError)"

definition fromtimestamp :: "int \<Rightarrow> int \<Rightarrow> int" where
  "fromtimestamp tz t = t + tz"

section \<open>Outcome classification\<close>

text \<open>
  Lines 95 to 103 of \<^verbatim>\<open>process_all_modes\<close>: the value of the variable
  \<^verbatim>\<open>game_status\<close> as a function of \<^verbatim>\<open>game_result\<close>.  The script keeps the status as one
  of the strings \<^verbatim>\<open>'Win'\<close>, \<^verbatim>\<open>'Draw'\<close>, \<^verbatim>\<open>'Loss'\<close>.
\<close>

definition game_status :: "string \<Rightarrow> status" where
  "game_status game_result =
     (if game_result \<in> set [''win'', ''agreed'', ''repetition'', ''stalemate'',
                            ''insufficient_material'', ''50move'',
                            ''timevsinsufficientmaterial'']
      then (if game_result = ''win'' then Win else Draw)
      else if game_result \<in> set [''checkmated'', ''resigned'', ''timeout'', ''abandoned'']
      then Loss
      else Draw)"

section \<open>Fetching and normalising the games\<close>

text \<open>
  What \<^verbatim>\<open>get_data(url)\<close> returns: \<open>None\<close> when the request fails or the status is
  not 200, otherwise the JSON object of the answer, of which the script reads the keys
  \<^verbatim>\<open>archives\<close> and \<^verbatim>\<open>games\<close>, each with \<^verbatim>\<open>.get\<close> and a default; \<open>r_other_keys\<close>
  tells whether the object has any other key.  The network is a parameter: a function
  from the URL to the answer.
\<close>

record response =
  r_archives :: "string list option"
  r_games :: "game list option"
  r_other_keys :: bool

type_synonym network = "string \<Rightarrow> response option"

text \<open>\<^verbatim>\<open>not data\<close>: no answer, or an object without keys.\<close>

definition falsy :: "response option \<Rightarrow> bool" where
  "falsy data =
     (case data of
        None \<Rightarrow> True
      | Some r \<Rightarrow> r_archives r = None \<and> r_games r = None \<and> \<not> r_other_keys r)"

text \<open>
  What \<^verbatim>\<open>process_all_modes\<close> does besides returning: the messages it prints and the
  URLs it passes to \<^verbatim>\<open>get_data\<close>, in order.
\<close>

datatype effect =
    PrintDateFormatError
  | PrintFiltering string
  | PrintDownloading nat
  | Fetch string

text \<open>
  Lines 63 to 65: the year and the month of an archive URL are its last two pieces
  between slashes.  \<^verbatim>\<open>parts[-2]\<close> raises \<^verbatim>\<open>IndexError\<close> when there is one piece only.
\<close>

definition archive_year_month :: "string \<Rightarrow> py_error + (int \<times> int)" where
  "archive_year_month url =
     (let parts = str_split CHR ''/'' url in
      if length parts < 2 then Inl IndexError
      else
        (case py_int (parts ! (length parts - 2)) of
           Inl e \<Rightarrow> Inl e
         | Inr y \<Rightarrow>
             (case py_int (last parts) of
                Inl e \<Rightarrow> Inl e
              | Inr m \<Rightarrow> Inr (y, m))))"

text \<open>Lines 62 to 68: the loop that fills the list \<^verbatim>\<open>relevant_archives\<close>.\<close>

fun relevant_archives :: "datetime \<Rightarrow> string list \<Rightarrow> py_error + string list" where
  "relevant_archives start_dt [] = Inr []"
| "relevant_archives start_dt (url # urls) =
     (case archive_year_month url of
        Inl e \<Rightarrow> Inl e
      | Inr (y, m) \<Rightarrow>
          (case relevant_archives start_dt urls of
             Inl e \<Rightarrow> Inl e
           | Inr rest \<Rightarrow>
               if y > dt_year start_dt \<or> (y = dt_year start_dt \<and> m \<ge> dt_month start_dt)
               then Inr (url # rest)
               else Inr rest))"

text \<open>
  Lines 79 to 116, the body of the loop over the games of one archive: the row appended
  to \<^verbatim>\<open>history_data\<close> for one game, or \<open>None\<close> when the game is skipped.
\<close>

definition process_game :: "int \<Rightarrow> string \<Rightarrow> int \<Rightarrow> game \<Rightarrow> match_record option" where
  "process_game tz user start_timestamp g =
     (if end_time g < start_timestamp then None
      else
        (let rules_v = (case rules g of None \<Rightarrow> ''chess'' | Some r \<Rightarrow> r);
             is_960 = (rules_v = ''chess960'')
         in
           (case time_class g of
              None \<Rightarrow> None
            | Some tc \<Rightarrow>
                if tc \<in> set [''rapid'', ''blitz'', ''bullet'', ''daily''] then
                  (let side = (if lower (p_username (white g)) = lower user
                               then white g else black g);
                       mode_name = capitalize tc
                   in Some \<lparr>Date = fromtimestamp tz (end_time g),
                             Rating = p_rating side,
                             Mode = (if is_960 then mode_name @ ''960'' else mode_name),
                             Status = game_status (p_result side),
                             Is960 = is_960\<rparr>)
                else None)))"

text \<open>
  Lines 75 to 78: the games that the inner loop runs over for one archive URL.  An
  archive that cannot be fetched, or whose answer has no \<^verbatim>\<open>games\<close>, gives none.
\<close>

definition games_of :: "network \<Rightarrow> string \<Rightarrow> game list" where
  "games_of get_data url =
     (let data = get_data url in
      if falsy data then []
      else (case r_games (the data) of None \<Rightarrow> [] | Some gs \<Rightarrow> gs))"

text \<open>Lines 74 to 116: the rows collected from the selected archives, in order.\<close>

fun history_data :: "network \<Rightarrow> int \<Rightarrow> string \<Rightarrow> int \<Rightarrow> string list \<Rightarrow> match_record list" where
  "history_data get_data tz user start_timestamp [] = []"
| "history_data get_data tz user start_timestamp (url # urls) =
     List.map_filter (process_game tz user start_timestamp) (games_of get_data url)
       @ history_data get_data tz user start_timestamp urls"

definition archives_url :: "string \<Rightarrow> string" where
  "archives_url user = ''https://api.chess.com/pub/player/'' @ user @ ''/games/archives''"

text \<open>
  \<^verbatim>\<open>process_all_modes(username, start_date_str)\<close>.  The result is the trace of effects
  and either the data frame returned or the exception that leaves the function.  The
  \<^verbatim>\<open>try\<close> of lines 47 to 52 holds both \<^verbatim>\<open>strptime\<close> and \<^verbatim>\<open>timestamp()\<close>: a
  \<^verbatim>\<open>ValueError\<close> of either prints the message and returns the empty frame.
\<close>

definition process_all_modes ::
    "network \<Rightarrow> int \<Rightarrow> string \<Rightarrow> string \<Rightarrow> effect list \<times> (py_error + match_record list)" where
  "process_all_modes get_data tz user start_date_str =
     (case strptime_ymd start_date_str of
        None \<Rightarrow> ([PrintDateFormatError], Inr [])
      | Some start_dt \<Rightarrow>
          (case timestamp tz start_dt of
             Inl e \<Rightarrow> ([PrintDateFormatError], Inr [])
           | Inr start_timestamp \<Rightarrow>
               (let archives = get_data (archives_url user)
                in if falsy archives then ([Fetch (archives_url user)], Inr [])
                   else
                     (let all_archives =
                            (case r_archives (the archives) of None \<Rightarrow> [] | Some l \<Rightarrow> l)
                      in case relevant_archives start_dt all_archives of
                           Inl e \<Rightarrow>
                             ([Fetch (archives_url user), PrintFiltering start_date_str], Inl e)
                         | Inr rel \<Rightarrow>
                             ([Fetch (archives_url user), PrintFiltering start_date_str,
                               PrintDownloading (length rel)] @ map Fetch rel,
                              Inr (history_data get_data tz user start_timestamp rel))))))"

section \<open>Data-frame helpers of pandas\<close>

text \<open>\<^verbatim>\<open>Series.unique()\<close>: the distinct values in order of first appearance.\<close>

fun unique :: "'a list \<Rightarrow> 'a list" where
  "unique [] = []"
| "unique (x # xs) = x # unique (filter (\<lambda>y. y \<noteq> x) xs)"

text \<open>\<^verbatim>\<open>groupby(key).cumcount()\<close>: for each row, the number of earlier rows of its group.\<close>

definition cumcount :: "'k list \<Rightarrow> nat list" where
  "cumcount ks = map (\<lambda>i. count_list (take i ks) (ks ! i)) [0..<length ks]"

text \<open>\<^verbatim>\<open>Series.mean()\<close> of a non-empty column of integers, as an exact rational.\<close>

definition mean :: "int list \<Rightarrow> rat" where
  "mean xs = of_int (sum_list xs) / of_nat (length xs)"

text \<open>\<^verbatim>\<open>round(x)\<close>: to the nearest integer, a tie to the even neighbour.\<close>

definition py_round :: "rat \<Rightarrow> int" where
  "py_round x =
     (let f = \<lfloor>x\<rfloor>; d = x - of_int f in
      if d < 1 / 2 then f
      else if d > 1 / 2 then f + 1
      else if even f then f else f + 1)"

text \<open>\<^verbatim>\<open>range(start, stop, step)\<close> for a positive step.\<close>

definition py_range :: "nat \<Rightarrow> nat \<Rightarrow> nat \<Rightarrow> nat list" where
  "py_range start stop step = filter (\<lambda>c. (c - start) mod step = 0) [start..<stop]"

text \<open>\<^verbatim>\<open>s.replace(old, new)\<close> for a non-empty \<open>old\<close>, from left to right.\<close>

fun replace :: "string \<Rightarrow> string \<Rightarrow> string \<Rightarrow> string" where
  "replace old new [] = []"
| "replace old new (c # cs) =
     (if old \<noteq> [] \<and> take (length old) (c # cs) = old
      then new @ replace old new (drop (length old) (c # cs))
      else c # replace old new cs)"

text \<open>
  The series \<^verbatim>\<open>df['Date'].dt.date\<close> holds calendar dates; a date is represented by its
  number of days since 1970-01-01.  \<^verbatim>\<open>pd.to_datetime\<close> turns a date into the date-time
  of its midnight.
\<close>

definition dt_date :: "int \<Rightarrow> int" where
  "dt_date t = t div 86400"

definition to_datetime :: "int \<Rightarrow> int" where
  "to_datetime d = d * 86400"

text \<open>
  \<^verbatim>\<open>dt.to_period('W')\<close> is the weekly period ending on Sunday that holds the date-time,
  and \<^verbatim>\<open>start_time\<close> is the midnight that begins it.  \<^verbatim>\<open>weekday\<close> numbers the days
  from Monday = 0 to Sunday = 6; 1970-01-01 was a Thursday.
\<close>

definition weekday :: "int \<Rightarrow> int" where
  "weekday d = (d + 3) mod 7"

definition week_start_time :: "int \<Rightarrow> int" where
  "week_start_time t = to_datetime (dt_date t - weekday (dt_date t))"

text \<open>
  Every chart function returns HTML: either a paragraph with a message or the rendering
  of a figure.  The figure is modelled by the data handed to the plotting library.
\<close>

datatype 'a html = Message string | Figure 'a

section \<open>Overall daily performance\<close>

record daily_stat =
  DateOnly :: int
  Wins :: nat
  NonWins :: nat
  TotalGames :: nat
  WinPct :: rat

text \<open>
  Lines 131 to 139: one row per day, the days in ascending order as \<^verbatim>\<open>groupby\<close> sorts
  its keys.  \<^verbatim>\<open>.round(1)\<close> keeps one decimal.
\<close>

definition daily_stats :: "match_record list \<Rightarrow> daily_stat list" where
  "daily_stats df =
     map (\<lambda>d.
        (let x = map Status (filter (\<lambda>r. to_datetime (dt_date (Date r)) = d) df);
             wins = length (filter (\<lambda>s. s = Win) x);
             non_wins = length (filter (\<lambda>s. s \<noteq> Win) x);
             total = wins + non_wins
         in \<lparr>DateOnly = d, Wins = wins, NonWins = non_wins, TotalGames = total,
             WinPct = of_int (py_round (of_nat wins / of_nat total * 100 * 10)) / 10\<rparr>))
       (sort (unique (map (\<lambda>r. to_datetime (dt_date (Date r))) df)))"

definition create_overall_performance_chart :: "match_record list \<Rightarrow> daily_stat list html" where
  "create_overall_performance_chart df =
     (if df = [] then Message ''<p>No games found.</p>''
      else Figure (daily_stats df))"

section \<open>Interval table\<close>

record interval_stat =
  Mode_of :: string
  Games_Played :: nat
  Average_Rating :: int
  Win_Pct :: rat

text \<open>
  Lines 289 to 300, the body of the inner loop: the entry appended to
  \<^verbatim>\<open>interval_stats\<close> for one mode and one game count.
\<close>

definition interval_row :: "string \<Rightarrow> match_record list \<Rightarrow> nat \<Rightarrow> interval_stat" where
  "interval_row mode mode_data game_count =
     (let games_up_to_interval = take game_count mode_data;
          avg_rating = mean (map Rating games_up_to_interval);
          wins = length (filter (\<lambda>r. Status r = Win) games_up_to_interval);
          win_pct = of_nat wins / of_nat game_count * 100
      in \<lparr>Mode_of = mode, Games_Played = game_count,
          Average_Rating = py_round avg_rating, Win_Pct = win_pct\<rparr>)"

text \<open>
  Lines 285 to 300: the list \<^verbatim>\<open>interval_stats\<close>, from the filtered and sorted frame and
  the interval \<^verbatim>\<open>GAME_INTERVAL\<close>.
\<close>

definition interval_stats :: "nat \<Rightarrow> match_record list \<Rightarrow> interval_stat list" where
  "interval_stats N filtered_df =
     concat (map (\<lambda>mode.
        (let mode_data = filter (\<lambda>r. Mode r = mode) filtered_df in
         map (interval_row mode mode_data) (py_range N (length mode_data + 1) N)))
       (unique (map Mode filtered_df)))"

text \<open>
  A cell of the table is the text \<^verbatim>\<open>-\<close> or a rating with a win percentage; a column
  header is a name, with the total number of games when there are any.
\<close>

datatype cell = Dash | RatingWin int rat

datatype header = Plain string | WithTotal string nat

record interval_table =
  it_headers :: "header list"
  it_games_played :: "nat list"
  it_columns :: "cell list list"

definition mode_list :: "bool \<Rightarrow> string list" where
  "mode_list is_960 =
     (if is_960 then [''Blitz960'', ''Bullet960'', ''Rapid960'', ''Daily960'']
      else [''Blitz'', ''Bullet'', ''Rapid'', ''Daily''])"

definition display_name :: "bool \<Rightarrow> string \<Rightarrow> string" where
  "display_name is_960 mode = (if is_960 then replace ''960'' '' 960'' mode else mode)"

text \<open>Lines 305 to 325: the columns of the pivot, one per mode of the list.\<close>

definition pivot_column :: "interval_stat list \<Rightarrow> nat list \<Rightarrow> string \<Rightarrow> cell list" where
  "pivot_column interval_df games_played mode =
     (let mode_data = filter (\<lambda>s. Mode_of s = mode) interval_df in
      if mode_data \<noteq> [] then
        map (\<lambda>games.
           (case filter (\<lambda>s. Games_Played s = games) mode_data of
              [] \<Rightarrow> Dash
            | row # _ \<Rightarrow> RatingWin (Average_Rating row) (Win_Pct row)))
          games_played
      else replicate (length games_played) Dash)"

text \<open>
  \<^verbatim>\<open>create_interval_table(df, is_960)\<close>.  The script reads the interval from the module
  constant \<^verbatim>\<open>GAME_INTERVAL\<close>; here it is the parameter \<open>N\<close>, a positive number.
\<close>

definition create_interval_table :: "nat \<Rightarrow> match_record list \<Rightarrow> bool \<Rightarrow> interval_table html" where
  "create_interval_table N df is_960 =
     (let filtered_df = filter (\<lambda>r. Is960 r = is_960) df in
      if filtered_df = [] then Message ''<p>No games found for this variant.</p>''
      else
        (let sorted_df = sort_key (\<lambda>r. (Mode r, Date r)) filtered_df;
             game_count = map (\<lambda>c. c + 1) (cumcount (map Mode sorted_df));
             df_intervals = filter (\<lambda>c. c mod N = 0) game_count
         in if df_intervals = [] then
              Message ''<p>Not enough games to show intervals yet.</p>''
            else
              (let interval_df = interval_stats N sorted_df;
                   games_played = sort (unique (map Games_Played interval_df))
               in Figure
                    \<lparr>it_headers = Plain ''Games Played'' #
                       map (\<lambda>mode.
                          (let total_games = length (filter (\<lambda>r. Mode r = mode) sorted_df) in
                           if total_games > 0
                           then WithTotal (display_name is_960 mode) total_games
                           else Plain (display_name is_960 mode)))
                         (mode_list is_960),
                     it_games_played = games_played,
                     it_columns = map (pivot_column interval_df games_played)
                                    (mode_list is_960)\<rparr>)))"

text \<open>The value the script configures.\<close>

definition GAME_INTERVAL :: nat where
  "GAME_INTERVAL = 10"

section \<open>Weekly table\<close>

text \<open>
  A cell of a week's row is the text \<^verbatim>\<open>-\<close> or the number of games, the win percentage
  and the rounded average rating.  The row's label is the date of \<open>Week\<close>.
\<close>

datatype week_cell = NoData | WeekStats nat rat int

record week_row =
  Week :: int
  week_cells :: "(string \<times> week_cell) list"

text \<open>Lines 387 to 395: the entry of one mode in the row of one week.\<close>

definition week_cell_of :: "match_record list \<Rightarrow> string \<Rightarrow> week_cell" where
  "week_cell_of week_data mode =
     (let mode_data = filter (\<lambda>r. Mode r = mode) week_data in
      if length mode_data > 0 then
        (let total_games = length mode_data;
             wins = length (filter (\<lambda>r. Status r = Win) mode_data);
             win_pct = of_nat wins / of_nat total_games * 100;
             avg_elo = py_round (mean (map Rating mode_data))
         in WeekStats total_games win_pct avg_elo)
      else NoData)"

text \<open>Lines 382 to 397: the list \<^verbatim>\<open>weekly_stats\<close>, one row per week, latest first.\<close>

definition weekly_stats :: "match_record list \<Rightarrow> bool \<Rightarrow> week_row list" where
  "weekly_stats filtered_df is_960 =
     map (\<lambda>week.
        (let week_data = filter (\<lambda>r. week_start_time (Date r) = week) filtered_df in
         \<lparr>Week = week,
          week_cells = map (\<lambda>mode. (mode, week_cell_of week_data mode)) (mode_list is_960)\<rparr>))
       (rev (sort (unique (map (\<lambda>r. week_start_time (Date r)) filtered_df))))"

text \<open>The number of games that a cell reports.\<close>

fun cell_games :: "week_cell \<Rightarrow> nat" where
  "cell_games NoData = 0"
| "cell_games (WeekStats total_games win_pct avg_elo) = total_games"

definition create_weekly_stats_table :: "match_record list \<Rightarrow> bool \<Rightarrow> week_row list html" where
  "create_weekly_stats_table df is_960 =
     (let filtered_df = filter (\<lambda>r. Is960 r = is_960) df in
      if filtered_df = [] then Message ''<p>No games found for this variant.</p>''
      else Figure (weekly_stats filtered_df is_960))"

section \<open>Rating distribution\<close>

record box_trace =
  box_y :: "int list"
  box_name :: string
  box_marker_color :: string

definition color_map :: "(string \<times> string) list" where
  "color_map =
     [(''Rapid'', ''#76b900''), (''Blitz'', ''#F0C800''),
      (''Bullet'', ''#ca3431''), (''Daily'', ''#00BFFF''),
      (''Rapid960'', ''#76b900''), (''Blitz960'', ''#F0C800''),
      (''Bullet960'', ''#ca3431''), (''Daily960'', ''#00BFFF'')]"

definition box_mode_list :: "bool \<Rightarrow> string list" where
  "box_mode_list is_960 =
     (if is_960 then [''Rapid960'', ''Blitz960'', ''Bullet960'', ''Daily960'']
      else [''Rapid'', ''Blitz'', ''Bullet'', ''Daily''])"

text \<open>Lines 455 to 464: one box trace per mode of the list that has rows.\<close>

definition box_traces :: "match_record list \<Rightarrow> bool \<Rightarrow> box_trace list" where
  "box_traces filtered_df is_960 =
     concat (map (\<lambda>mode.
        (let mode_data = filter (\<lambda>r. Mode r = mode) filtered_df in
         if length mode_data > 0 then
           [\<lparr>box_y = map Rating mode_data,
             box_name = display_name is_960 mode,
             box_marker_color =
               (case map_of color_map mode of None \<Rightarrow> ''#888888'' | Some c \<Rightarrow> c)\<rparr>]
         else []))
       (box_mode_list is_960))"

definition create_rating_boxplot :: "match_record list \<Rightarrow> bool \<Rightarrow> box_trace list html" where
  "create_rating_boxplot df is_960 =
     (let filtered_df = filter (\<lambda>r. Is960 r = is_960) df in
      if filtered_df = [] then Message ''<p>No games found for this variant.</p>''
      else Figure (box_traces filtered_df is_960))"

section \<open>Example inputs\<close>

definition example_unparsable :: string where
  "example_unparsable = ''2025/11/01''"

definition example_cutoff :: string where
  "example_cutoff = ''2025-11-01''"

definition example_first_day :: string where
  "example_first_day = ''0001-01-01''"

definition example_start_dt :: datetime where
  "example_start_dt = \<lparr>dt_year = 2025, dt_month = 11, dt_day = 1\<rparr>"

definition no_network :: network where
  "no_network url = None"

definition example_archives :: "string list" where
  "example_archives =
     [''https://api.chess.com/pub/player/kxrook/games/2025/10'',
      ''https://api.chess.com/pub/player/kxrook/games/2025/11'',
      ''https://api.chess.com/pub/player/kxrook/games/2025/12'',
      ''https://api.chess.com/pub/player/kxrook/games/2026/01'']"

definition example_game_960 :: game where
  "example_game_960 =
     \<lparr>end_time = 1762000000, time_class = Some ''blitz'', rules = Some ''chess960'',
      white = \<lparr>p_username = ''KxRook'', p_rating = 1500, p_result = ''win''\<rparr>,
      black = \<lparr>p_username = ''opponent'', p_rating = 1480, p_result = ''resigned''\<rparr>\<rparr>"

definition example_game_no_rules :: game where
  "example_game_no_rules =
     \<lparr>end_time = 1762003600, time_class = Some ''rapid'', rules = None,
      white = \<lparr>p_username = ''opponent'', p_rating = 1510, p_result = ''win''\<rparr>,
      black = \<lparr>p_username = ''kxrook'', p_rating = 1490, p_result = ''timeout''\<rparr>\<rparr>"

definition example_game_early :: game where
  "example_game_early = example_game_no_rules\<lparr>end_time := 1761000000\<rparr>"

definition example_game_other_class :: game where
  "example_game_other_class = example_game_no_rules\<lparr>time_class := Some ''lightning''\<rparr>"

definition example_network :: network where
  "example_network url =
     (if url = archives_url ''kxrook''
      then Some \<lparr>r_archives = Some example_archives, r_games = None, r_other_keys = False\<rparr>
      else if url = ''https://api.chess.com/pub/player/kxrook/games/2025/11''
      then Some \<lparr>r_archives = None,
                 r_games = Some [example_game_960, example_game_early,
                                 example_game_no_rules, example_game_other_class],
                 r_other_keys = False\<rparr>
      else None)"

definition example_record_960 :: match_record where
  "example_record_960 =
     \<lparr>Date = 1762000000, Rating = 1500, Mode = ''Blitz960'', Status = Win, Is960 = True\<rparr>"

definition example_record_no_rules :: match_record where
  "example_record_no_rules =
     \<lparr>Date = 1762003600, Rating = 1490, Mode = ''Rapid'', Status = Loss, Is960 = False\<rparr>"

definition example_frame :: "match_record list" where
  "example_frame =
     [\<lparr>Date = 1762170000, Rating = 1500, Mode = ''Blitz'', Status = Win, Is960 = False\<rparr>,
      \<lparr>Date = 1762173600, Rating = 1508, Mode = ''Blitz'', Status = Win, Is960 = False\<rparr>,
      \<lparr>Date = 1762177200, Rating = 1391, Mode = ''Bullet'', Status = Loss, Is960 = False\<rparr>,
      \<lparr>Date = 1762000000, Rating = 1493, Mode = ''Blitz'', Status = Draw, Is960 = False\<rparr>,
      \<lparr>Date = 1762180800, Rating = 1450, Mode = ''Blitz960'', Status = Loss, Is960 = True\<rparr>]"

definition example_daily_rows :: "daily_stat list" where
  "example_daily_rows =
     [\<lparr>DateOnly = 1761955200, Wins = 0, NonWins = 1, TotalGames = 1, WinPct = 0\<rparr>,
      \<lparr>DateOnly = 1762128000, Wins = 2, NonWins = 2, TotalGames = 4, WinPct = 50\<rparr>]"

definition example_week_rows :: "week_row list" where
  "example_week_rows =
     [\<lparr>Week = 1762128000,
       week_cells = [(''Blitz'', WeekStats 2 100 1504), (''Bullet'', WeekStats 1 0 1391),
                     (''Rapid'', NoData), (''Daily'', NoData)]\<rparr>,
      \<lparr>Week = 1761523200,
       week_cells = [(''Blitz'', WeekStats 1 0 1493), (''Bullet'', NoData),
                     (''Rapid'', NoData), (''Daily'', NoData)]\<rparr>]"

definition example_box_traces :: "box_trace list" where
  "example_box_traces =
     [\<lparr>box_y = [1500, 1508, 1493], box_name = ''Blitz'', box_marker_color = ''#F0C800''\<rparr>,
      \<lparr>box_y = [1391], box_name = ''Bullet'', box_marker_color = ''#ca3431''\<rparr>]"

definition example_frame_25 :: "match_record list" where
  "example_frame_25 =
     map (\<lambda>i. \<lparr>Date = 1762000000 + 3600 * int i, Rating = 1500 + int i, Mode = ''Blitz'',
                Status = (if even i then Win else Loss), Is960 = False\<rparr>) [0..<25]"

definition example_interval_table :: interval_table where
  "example_interval_table =
     \<lparr>it_headers = [Plain ''Games Played'', WithTotal ''Blitz'' 3, WithTotal ''Bullet'' 1,
                    Plain ''Rapid'', Plain ''Daily''],
      it_games_played = [2],
      it_columns = [[RatingWin 1496 50], [Dash], [Dash], [Dash]]\<rparr>"

section \<open>Verified properties\<close>

subsection \<open>Outcome classification\<close>

text \<open>
  Claim C2.  The classification of a raw result code is the fixed table: \<^verbatim>\<open>win\<close> is a
  win; the six draw codes are draws; the four loss codes are losses; every other string
  is a draw.  The function is defined on every string, and on the four codes named in the
  specification it gives Win, Loss, Draw and Draw.
\<close>

theorem game_status_table:
  "game_status ''win'' = Win
   \<and> (d \<in> set [''agreed'', ''repetition'', ''stalemate'', ''insufficient_material'',
                 ''50move'', ''timevsinsufficientmaterial''] \<longrightarrow> game_status d = Draw)
   \<and> (l \<in> set [''checkmated'', ''resigned'', ''timeout'', ''abandoned'']
        \<longrightarrow> game_status l = Loss)
   \<and> (u \<notin> set [''win'', ''agreed'', ''repetition'', ''stalemate'', ''insufficient_material'',
                 ''50move'', ''timevsinsufficientmaterial'',
                 ''checkmated'', ''resigned'', ''timeout'', ''abandoned'']
        \<longrightarrow> game_status u = Draw)
   \<and> game_status ''resigned'' = Loss
   \<and> game_status ''stalemate'' = Draw
   \<and> game_status ''unknown_code'' = Draw"
  by (auto simp add: game_status_def)

theorem game_status_table_witness:
  "game_status ''repetition'' = Draw \<and> game_status ''timeout'' = Loss
   \<and> game_status ''kingofthehill'' = Draw"
  using game_status_table [of "''repetition''" "''timeout''" "''kingofthehill''"]
  by simp

subsection \<open>The rows built by the normaliser\<close>

lemma capitalize_classes:
  "capitalize ''rapid'' = ''Rapid''" "capitalize ''blitz'' = ''Blitz''"
  "capitalize ''bullet'' = ''Bullet''" "capitalize ''daily'' = ''Daily''"
  by code_simp+

lemma process_game_Some:
  assumes "process_game tz user st g = Some r"
  shows "st \<le> end_time g \<and> Date r = fromtimestamp tz (end_time g)
     \<and> Is960 r = (rules g = Some ''chess960'')
     \<and> (\<exists>tc \<in> set [''rapid'', ''blitz'', ''bullet'', ''daily''].
           time_class g = Some tc
           \<and> Mode r = capitalize tc @ (if Is960 r then ''960'' else []))"
proof -
  from assms have le: "st \<le> end_time g"
    by (cases "end_time g < st") (simp_all add: process_game_def)
  from assms le obtain tc where tc: "time_class g = Some tc"
    by (cases "time_class g") (simp_all add: process_game_def Let_def)
  from assms le tc have mem: "tc \<in> set [''rapid'', ''blitz'', ''bullet'', ''daily'']"
    by (cases "tc \<in> set [''rapid'', ''blitz'', ''bullet'', ''daily'']")
       (simp_all add: process_game_def Let_def del: set_simps)
  let ?is_960 = "(case rules g of None \<Rightarrow> ''chess'' | Some r \<Rightarrow> r) = ''chess960''"
  from assms le tc mem have r: "r = \<lparr>Date = fromtimestamp tz (end_time g),
       Rating = p_rating (if lower (p_username (white g)) = lower user then white g else black g),
       Mode = (if ?is_960 then capitalize tc @ ''960'' else capitalize tc),
       Status = game_status (p_result (if lower (p_username (white g)) = lower user
                                        then white g else black g)),
       Is960 = ?is_960\<rparr>"
    by (simp add: process_game_def Let_def del: set_simps capitalize.simps)
  have eq: "?is_960 = (rules g = Some ''chess960'')"
    by (cases "rules g") simp_all
  from r eq have "Is960 r = (rules g = Some ''chess960'')" by simp
  moreover from r have "Date r = fromtimestamp tz (end_time g)" by simp
  moreover from r eq have "Mode r = capitalize tc @ (if Is960 r then ''960'' else [])"
    by (simp del: capitalize.simps)
  ultimately show ?thesis using le tc mem by blast
qed

lemma mode_names:
  assumes "process_game tz user st g = Some r"
  shows "if Is960 r then Mode r \<in> set [''Rapid960'', ''Blitz960'', ''Bullet960'', ''Daily960'']
         else Mode r \<in> set [''Rapid'', ''Blitz'', ''Bullet'', ''Daily'']"
proof -
  from process_game_Some [OF assms] obtain tc where
    tc: "tc \<in> set [''rapid'', ''blitz'', ''bullet'', ''daily'']"
    and m: "Mode r = capitalize tc @ (if Is960 r then ''960'' else [])"
    by blast
  from tc have "tc = ''rapid'' \<or> tc = ''blitz'' \<or> tc = ''bullet'' \<or> tc = ''daily''"
    by simp
  then have c: "capitalize tc = ''Rapid'' \<or> capitalize tc = ''Blitz''
      \<or> capitalize tc = ''Bullet'' \<or> capitalize tc = ''Daily''"
    using capitalize_classes by metis
  show ?thesis
  proof (cases "Is960 r")
    case True
    with m have "Mode r = capitalize tc @ ''960''" by simp
    with c True show ?thesis by auto
  next
    case False
    with m have "Mode r = capitalize tc" by simp
    with c False show ?thesis by auto
  qed
qed

lemma map_filter_mem:
  "r \<in> set (List.map_filter f xs) \<longleftrightarrow> (\<exists>x \<in> set xs. f x = Some r)"
  by (induction xs) (auto split: option.splits)

lemma map_filter_append:
  "List.map_filter f (xs @ ys) = List.map_filter f xs @ List.map_filter f ys"
  by (simp add: List.map_filter_def)

lemma process_game_None:
  "(process_game tz user st g = None)
     = (end_time g < st \<or> time_class g \<notin> Some ` set [''rapid'', ''blitz'', ''bullet'', ''daily''])"
  by (cases "time_class g") (auto simp add: process_game_def Let_def simp del: capitalize.simps)

lemma games_of_mem:
  "g \<in> set (games_of get_data url)
     \<longleftrightarrow> (\<exists>resp gs. get_data url = Some resp \<and> r_games resp = Some gs \<and> g \<in> set gs)"
proof (cases "get_data url")
  case None
  then show ?thesis by (simp add: games_of_def falsy_def)
next
  case (Some resp)
  then show ?thesis
    by (cases "r_games resp") (auto simp add: games_of_def falsy_def Let_def)
qed

lemma history_data_eq:
  "history_data get_data tz user st urls
     = List.map_filter (process_game tz user st) (concat (map (games_of get_data) urls))"
  by (induction urls) (simp_all add: map_filter_append)

lemma process_all_modes_frame:
  assumes "process_all_modes get_data tz user s = (trace, Inr df)" and "df \<noteq> []"
  shows "\<exists>start_dt st rel. strptime_ymd s = Some start_dt \<and> timestamp tz start_dt = Inr st
           \<and> trace = [Fetch (archives_url user), PrintFiltering s, PrintDownloading (length rel)]
                       @ map Fetch rel
           \<and> df = history_data get_data tz user st rel"
proof (cases "strptime_ymd s")
  case None
  with assms show ?thesis by (simp add: process_all_modes_def)
next
  case (Some start_dt)
  show ?thesis
  proof (cases "timestamp tz start_dt")
    case (Inl e)
    with Some assms show ?thesis by (simp add: process_all_modes_def)
  next
    case st: (Inr st)
    let ?all = "case r_archives (the (get_data (archives_url user))) of
                  None \<Rightarrow> [] | Some l \<Rightarrow> l"
    show ?thesis
    proof (cases "falsy (get_data (archives_url user))")
      case True
      with Some st assms show ?thesis by (simp add: process_all_modes_def Let_def)
    next
      case False
      show ?thesis
      proof (cases "relevant_archives start_dt ?all")
        case (Inl e)
        with Some st False assms show ?thesis by (simp add: process_all_modes_def Let_def)
      next
        case (Inr rel)
        with Some st False assms
        have "trace = [Fetch (archives_url user), PrintFiltering s, PrintDownloading (length rel)]
                       @ map Fetch rel"
          and "df = history_data get_data tz user st rel"
          by (simp_all add: process_all_modes_def Let_def)
        with Some st show ?thesis by blast
      qed
    qed
  qed
qed

lemma process_all_modes_row_game:
  assumes "process_all_modes get_data tz user s = (trace, Inr df)" and "r \<in> set df"
  shows "\<exists>st g. process_game tz user st g = Some r"
proof -
  from assms(2) have "df \<noteq> []" by auto
  from process_all_modes_frame [OF assms(1) this] obtain st rel where
    "df = history_data get_data tz user st rel" by blast
  with assms(2) have "r \<in> set (List.map_filter (process_game tz user st)
                                  (concat (map (games_of get_data) rel)))"
    by (simp add: history_data_eq)
  then show ?thesis
    using map_filter_mem [of r "process_game tz user st"] by blast
qed

lemma timestamp_Inr:
  assumes "timestamp tz d = Inr st"
  shows "st = naive_seconds d - tz"
  using assms by (simp add: timestamp_def Let_def split: if_splits)

lemma example_run:
  "process_all_modes example_network 0 ''kxrook'' example_cutoff =
     ([Fetch (archives_url ''kxrook''), PrintFiltering example_cutoff, PrintDownloading 3,
       Fetch ''https://api.chess.com/pub/player/kxrook/games/2025/11'',
       Fetch ''https://api.chess.com/pub/player/kxrook/games/2025/12'',
       Fetch ''https://api.chess.com/pub/player/kxrook/games/2026/01''],
      Inr [example_record_960, example_record_no_rules])"
  by code_simp

text \<open>
  Claim C3, as amended.  When \<^verbatim>\<open>process_all_modes\<close> returns a data frame with a row,
  the frame is the list of the rows that the normaliser gives for the games of the
  fetched archives, in order, and the normaliser gives no row exactly for the games that
  ended before the cutoff or whose time class is not one of \<^verbatim>\<open>rapid\<close>, \<^verbatim>\<open>blitz\<close>,
  \<^verbatim>\<open>bullet\<close>, \<^verbatim>\<open>daily\<close>: games of any other time class are never materialised.  Every
  row comes from a game of a fetched archive whose end time is not before the cutoff, so
  the row's date is not before the cutoff date, and whose time class is one of the four.
  The row's mode is the capitalised time class, followed by \<^verbatim>\<open>960\<close> exactly when the row
  is a Chess960 row.
\<close>

theorem process_all_modes_records:
  assumes "process_all_modes get_data tz user s = (trace, Inr df)" and "r \<in> set df"
  shows "\<exists>start_dt st rel.
           strptime_ymd s = Some start_dt
           \<and> timestamp tz start_dt = Inr st
           \<and> st = naive_seconds start_dt - tz
           \<and> trace = [Fetch (archives_url user), PrintFiltering s, PrintDownloading (length rel)]
                       @ map Fetch rel
           \<and> df = List.map_filter (process_game tz user st)
                     (concat (map (games_of get_data) rel))
           \<and> (\<forall>g. (process_game tz user st g = None)
                     = (end_time g < st
                        \<or> time_class g \<notin> Some ` set [''rapid'', ''blitz'', ''bullet'', ''daily'']))
           \<and> (\<exists>url \<in> set rel. \<exists>resp gs g.
                 get_data url = Some resp \<and> r_games resp = Some gs \<and> g \<in> set gs
                 \<and> process_game tz user st g = Some r
                 \<and> st \<le> end_time g
                 \<and> Date r = fromtimestamp tz (end_time g)
                 \<and> Is960 r = (rules g = Some ''chess960'')
                 \<and> (\<exists>tc \<in> set [''rapid'', ''blitz'', ''bullet'', ''daily''].
                       time_class g = Some tc
                       \<and> Mode r = capitalize tc @ (if Is960 r then ''960'' else [])))
           \<and> naive_seconds start_dt \<le> Date r
           \<and> (if Is960 r
               then Mode r \<in> set [''Rapid960'', ''Blitz960'', ''Bullet960'', ''Daily960'']
               else Mode r \<in> set [''Rapid'', ''Blitz'', ''Bullet'', ''Daily''])"
proof -
  from assms(2) have "df \<noteq> []" by auto
  from process_all_modes_frame [OF assms(1) this] obtain start_dt st rel where
    s: "strptime_ymd s = Some start_dt"
    and t: "timestamp tz start_dt = Inr st"
    and tr: "trace = [Fetch (archives_url user), PrintFiltering s, PrintDownloading (length rel)]
                       @ map Fetch rel"
    and df: "df = history_data get_data tz user st rel"
    by blast
  note st = timestamp_Inr [OF t]
  have eq: "df = List.map_filter (process_game tz user st)
                     (concat (map (games_of get_data) rel))"
    unfolding df by (rule history_data_eq)
  from assms(2) obtain url g where url: "url \<in> set rel"
    and gm: "g \<in> set (games_of get_data url)"
    and g: "process_game tz user st g = Some r"
    unfolding eq map_filter_mem by auto
  from gm obtain resp gs where f: "get_data url = Some resp" "r_games resp = Some gs"
    "g \<in> set gs"
    unfolding games_of_mem by blast
  from process_game_Some [OF g] have
    1: "st \<le> end_time g" and 2: "Date r = fromtimestamp tz (end_time g)"
    and 3: "Is960 r = (rules g = Some ''chess960'')"
    and 4: "\<exists>tc \<in> set [''rapid'', ''blitz'', ''bullet'', ''daily''].
              time_class g = Some tc
              \<and> Mode r = capitalize tc @ (if Is960 r then ''960'' else [])"
    by blast+
  from 1 2 st have 5: "naive_seconds start_dt \<le> Date r"
    by (simp add: fromtimestamp_def)
  from url f g 1 2 3 4 have row: "\<exists>url \<in> set rel. \<exists>resp gs g.
                 get_data url = Some resp \<and> r_games resp = Some gs \<and> g \<in> set gs
                 \<and> process_game tz user st g = Some r
                 \<and> st \<le> end_time g
                 \<and> Date r = fromtimestamp tz (end_time g)
                 \<and> Is960 r = (rules g = Some ''chess960'')
                 \<and> (\<exists>tc \<in> set [''rapid'', ''blitz'', ''bullet'', ''daily''].
                       time_class g = Some tc
                       \<and> Mode r = capitalize tc @ (if Is960 r then ''960'' else []))"
    by blast
  have none: "\<forall>g. (process_game tz user st g = None)
                     = (end_time g < st
                        \<or> time_class g \<notin> Some ` set [''rapid'', ''blitz'', ''bullet'', ''daily''])"
    using process_game_None by blast
  from s t st tr eq none row 5 mode_names [OF g] show ?thesis by blast
qed

theorem process_all_modes_records_witness:
  "\<exists>start_dt st rel.
           strptime_ymd example_cutoff = Some start_dt
           \<and> timestamp 0 start_dt = Inr st
           \<and> st = naive_seconds start_dt - 0
           \<and> [Fetch (archives_url ''kxrook''), PrintFiltering example_cutoff, PrintDownloading 3,
               Fetch ''https://api.chess.com/pub/player/kxrook/games/2025/11'',
               Fetch ''https://api.chess.com/pub/player/kxrook/games/2025/12'',
               Fetch ''https://api.chess.com/pub/player/kxrook/games/2026/01'']
               = [Fetch (archives_url ''kxrook''), PrintFiltering example_cutoff,
                  PrintDownloading (length rel)] @ map Fetch rel
           \<and> [example_record_960, example_record_no_rules]
               = List.map_filter (process_game 0 ''kxrook'' st)
                     (concat (map (games_of example_network) rel))
           \<and> (\<forall>g. (process_game 0 ''kxrook'' st g = None)
                     = (end_time g < st
                        \<or> time_class g \<notin> Some ` set [''rapid'', ''blitz'', ''bullet'', ''daily'']))
           \<and> (\<exists>url \<in> set rel. \<exists>resp gs g.
                 example_network url = Some resp \<and> r_games resp = Some gs \<and> g \<in> set gs
                 \<and> process_game 0 ''kxrook'' st g = Some example_record_no_rules
                 \<and> st \<le> end_time g
                 \<and> Date example_record_no_rules = fromtimestamp 0 (end_time g)
                 \<and> Is960 example_record_no_rules = (rules g = Some ''chess960'')
                 \<and> (\<exists>tc \<in> set [''rapid'', ''blitz'', ''bullet'', ''daily''].
                       time_class g = Some tc
                       \<and> Mode example_record_no_rules
                           = capitalize tc @ (if Is960 example_record_no_rules then ''960'' else [])))
           \<and> naive_seconds start_dt \<le> Date example_record_no_rules
           \<and> (if Is960 example_record_no_rules
               then Mode example_record_no_rules
                      \<in> set [''Rapid960'', ''Blitz960'', ''Bullet960'', ''Daily960'']
               else Mode example_record_no_rules
                      \<in> set [''Rapid'', ''Blitz'', ''Bullet'', ''Daily''])"
proof -
  have "example_record_no_rules \<in> set [example_record_960, example_record_no_rules]"
    by simp
  from process_all_modes_records [OF example_run this] show ?thesis .
qed

text \<open>
  The claim as written asks for the mode to be one of the four plain class names.  A
  Chess960 blitz game gives a row whose mode is \<^verbatim>\<open>Blitz960\<close>.
\<close>

theorem mode_is_plain_class_counterexample:
  "snd (process_all_modes example_network 0 ''kxrook'' example_cutoff) =
     Inr [example_record_960, example_record_no_rules]
   \<and> Mode example_record_960 = ''Blitz960''
   \<and> Mode example_record_960 \<notin> set [''Rapid'', ''Blitz'', ''Bullet'', ''Daily'']"
  by (simp add: example_run example_record_960_def)

subsection \<open>A missing rule set\<close>

lemma example_game_no_rules_row:
  "rules example_game_no_rules = None
   \<and> process_game 0 ''kxrook'' 1761955200 example_game_no_rules = Some example_record_no_rules"
  by code_simp

text \<open>
  Claim C9.  A game without the key \<^verbatim>\<open>rules\<close> is treated exactly as a game whose rules
  are \<^verbatim>\<open>chess\<close>: it is skipped only when it ended before the cutoff or its time class is
  not one of the four, and the row it gives is a standard row, with \<^verbatim>\<open>Is960\<close> false and
  the capitalised time class, without suffix, as its mode.  The normaliser has no error
  result.
\<close>

theorem missing_rules_is_standard_chess:
  assumes "rules g = None"
  shows "process_game tz user st g = process_game tz user st (g\<lparr>rules := Some ''chess''\<rparr>)
     \<and> (process_game tz user st g = None \<longleftrightarrow>
          end_time g < st \<or> time_class g \<notin> Some ` set [''rapid'', ''blitz'', ''bullet'', ''daily''])
     \<and> (\<forall>r. process_game tz user st g = Some r \<longrightarrow>
          Is960 r = False \<and> Mode r = capitalize (the (time_class g))
          \<and> Mode r \<in> set [''Rapid'', ''Blitz'', ''Bullet'', ''Daily''])"
proof -
  have 1: "process_game tz user st g = process_game tz user st (g\<lparr>rules := Some ''chess''\<rparr>)"
    using assms
    by (cases "time_class g") (simp_all add: process_game_def Let_def del: set_simps capitalize.simps)
  have 2: "process_game tz user st g = None \<longleftrightarrow>
          end_time g < st \<or> time_class g \<notin> Some ` set [''rapid'', ''blitz'', ''bullet'', ''daily'']"
    by (cases "time_class g") (auto simp add: process_game_def Let_def simp del: capitalize.simps)
  have 3: "Is960 r = False \<and> Mode r = capitalize (the (time_class g))
          \<and> Mode r \<in> set [''Rapid'', ''Blitz'', ''Bullet'', ''Daily'']"
    if r: "process_game tz user st g = Some r" for r
  proof -
    from process_game_Some [OF r] assms have i: "Is960 r = False" by simp
    from process_game_Some [OF r] i have "Mode r = capitalize (the (time_class g))"
      by auto
    with i mode_names [OF r] show ?thesis by simp
  qed
  from 1 2 3 show ?thesis by blast
qed

theorem missing_rules_is_standard_chess_witness:
  "process_game 0 ''kxrook'' 1761955200 example_game_no_rules = Some example_record_no_rules
   \<and> Is960 example_record_no_rules = False
   \<and> Mode example_record_no_rules = capitalize (the (time_class example_game_no_rules))"
proof -
  from example_game_no_rules_row have n: "rules example_game_no_rules = None"
    and p: "process_game 0 ''kxrook'' 1761955200 example_game_no_rules
              = Some example_record_no_rules"
    by blast+
  from missing_rules_is_standard_chess [OF n, of 0 "''kxrook''" 1761955200]
  have "\<forall>r. process_game 0 ''kxrook'' 1761955200 example_game_no_rules = Some r \<longrightarrow>
          Is960 r = False \<and> Mode r = capitalize (the (time_class example_game_no_rules))
          \<and> Mode r \<in> set [''Rapid'', ''Blitz'', ''Bullet'', ''Daily'']"
    by blast
  with p show ?thesis by blast
qed

subsection \<open>An unparsable cutoff date\<close>

lemma example_unparsable_None: "strptime_ymd example_unparsable = None"
  by code_simp

lemma example_cutoff_Some: "strptime_ymd example_cutoff = Some example_start_dt"
  by code_simp

lemma example_cutoff_timestamp: "timestamp 0 example_start_dt = Inr 1761955200"
  by code_simp

lemma example_first_day:
  "strptime_ymd example_first_day = Some \<lparr>dt_year = 1, dt_month = 1, dt_day = 1\<rparr>
   \<and> timestamp 0 \<lparr>dt_year = 1, dt_month = 1, dt_day = 1\<rparr> = Inl ValueError"
  by code_simp

text \<open>
  Claim C4, as amended.  When the cutoff text cannot be parsed, \<^verbatim>\<open>process_all_modes\<close>
  prints the date-format message, calls \<^verbatim>\<open>get_data\<close> not once and returns an empty data
  frame: the value it also returns, for a well-formed date, when the archive index cannot
  be fetched.  A date that parses but has no timestamp (the first day of year 1) is
  treated in the same way.
\<close>

theorem unparsable_date_gives_empty_frame:
  assumes "strptime_ymd s = None"
  shows "process_all_modes get_data tz user s = ([PrintDateFormatError], Inr [])
     \<and> (\<forall>s' d. strptime_ymd s' = Some d \<and> falsy (get_data (archives_url user))
            \<longrightarrow> snd (process_all_modes get_data tz user s')
                  = snd (process_all_modes get_data tz user s))
     \<and> (\<forall>s' d e. strptime_ymd s' = Some d \<and> timestamp tz d = Inl e
            \<longrightarrow> process_all_modes get_data tz user s'
                  = process_all_modes get_data tz user s)"
proof -
  have 1: "process_all_modes get_data tz user s = ([PrintDateFormatError], Inr [])"
    using assms by (simp add: process_all_modes_def)
  have 2: "snd (process_all_modes get_data tz user s') = Inr []"
    if "strptime_ymd s' = Some d \<and> falsy (get_data (archives_url user))" for s' d
    using that by (cases "timestamp tz d") (simp_all add: process_all_modes_def Let_def)
  have 3: "process_all_modes get_data tz user s' = ([PrintDateFormatError], Inr [])"
    if "strptime_ymd s' = Some d \<and> timestamp tz d = Inl e" for s' d e
    using that by (simp add: process_all_modes_def)
  have b2: "\<forall>s' d. strptime_ymd s' = Some d \<and> falsy (get_data (archives_url user))
            \<longrightarrow> snd (process_all_modes get_data tz user s')
                  = snd (process_all_modes get_data tz user s)"
    unfolding 1 using 2 by simp
  have b3: "\<forall>s' d e. strptime_ymd s' = Some d \<and> timestamp tz d = Inl e
            \<longrightarrow> process_all_modes get_data tz user s'
                  = process_all_modes get_data tz user s"
    unfolding 1 using 3 by blast
  from 1 b2 b3 show ?thesis by blast
qed

theorem unparsable_date_gives_empty_frame_witness:
  "process_all_modes no_network 0 ''kxrook'' example_unparsable = ([PrintDateFormatError], Inr [])
   \<and> snd (process_all_modes no_network 0 ''kxrook'' example_cutoff)
       = snd (process_all_modes no_network 0 ''kxrook'' example_unparsable)
   \<and> process_all_modes no_network 0 ''kxrook'' example_first_day
       = process_all_modes no_network 0 ''kxrook'' example_unparsable"
proof -
  have f: "falsy (no_network (archives_url ''kxrook''))"
    by (simp add: falsy_def no_network_def)
  from unparsable_date_gives_empty_frame [OF example_unparsable_None, of no_network 0 "''kxrook''"]
    example_cutoff_Some f example_first_day
  show ?thesis by blast
qed

text \<open>
  The claim as written asks for a failure that the caller can tell from a run without
  data.  The function returns the empty frame and no exception leaves it, with the
  unparsable date as with a well-formed date and no network.
\<close>

theorem unparsable_date_no_error_counterexample:
  "strptime_ymd example_unparsable = None
   \<and> snd (process_all_modes example_network 0 ''kxrook'' example_unparsable) = Inr []
   \<and> snd (process_all_modes no_network 0 ''kxrook'' example_cutoff) = Inr []"
  by code_simp

subsection \<open>Selecting the archives\<close>

lemma relevant_archives_filter:
  assumes "\<forall>url \<in> set urls. \<exists>y m. archive_year_month url = Inr (y, m)"
  shows "relevant_archives D urls =
     Inr (filter (\<lambda>url. case archive_year_month url of
                           Inl e \<Rightarrow> False
                         | Inr (y, m) \<Rightarrow> y > dt_year D \<or> (y = dt_year D \<and> m \<ge> dt_month D)) urls)"
  using assms
proof (induction urls)
  case Nil
  then show ?case by simp
next
  case (Cons url urls)
  then obtain y m where ym: "archive_year_month url = Inr (y, m)" by auto
  from Cons have "relevant_archives D urls = Inr (filter (\<lambda>url. case archive_year_month url of
                           Inl e \<Rightarrow> False
                         | Inr (y, m) \<Rightarrow> y > dt_year D \<or> (y = dt_year D \<and> m \<ge> dt_month D)) urls)" by simp
  with ym show ?case by simp
qed

lemma example_archives_year_month:
  "map archive_year_month example_archives =
     [Inr (2025, 10), Inr (2025, 11), Inr (2025, 12), Inr (2026, 1)]"
  by code_simp

lemma example_archives_selected:
  "relevant_archives example_start_dt example_archives = Inr (tl example_archives)"
  by code_simp

lemma process_all_modes_fetches:
  assumes "strptime_ymd s = Some D" and "timestamp tz D = Inr st"
    and "get_data (archives_url user) = Some \<lparr>r_archives = Some urls, r_games = gs, r_other_keys = k\<rparr>"
    and "relevant_archives D urls = Inr sel"
  shows "fst (process_all_modes get_data tz user s)
     = [Fetch (archives_url user), PrintFiltering s, PrintDownloading (length sel)] @ map Fetch sel"
  using assms by (simp add: process_all_modes_def Let_def falsy_def)

text \<open>
  Claim C5.  When every URL of the archive list ends in a year and a month, the selected
  archives are those of the list, in order, whose year is after the cutoff's year or
  whose year is the cutoff's and whose month is not before the cutoff's month, and these
  are the archives that \<^verbatim>\<open>process_all_modes\<close> then fetches, in this order, when the
  cutoff date parses and has a timestamp and the archive index is fetched.  For the cutoff
  2025-11 and the archives of 2025/10, 2025/11, 2025/12 and 2026/01 these are the last
  three.
\<close>

theorem archive_selector:
  "((\<forall>url \<in> set urls. \<exists>y m. archive_year_month url = Inr (y, m)) \<longrightarrow>
      relevant_archives D urls =
        Inr (filter (\<lambda>url. case archive_year_month url of
                              Inl e \<Rightarrow> False
                            | Inr (y, m) \<Rightarrow>
                                y > dt_year D \<or> (y = dt_year D \<and> m \<ge> dt_month D)) urls)
      \<and> (strptime_ymd s = Some D \<and> timestamp tz D = Inr st
           \<and> get_data (archives_url user)
               = Some \<lparr>r_archives = Some urls, r_games = gs, r_other_keys = k\<rparr> \<longrightarrow>
         map Fetch
           (filter (\<lambda>url. case archive_year_month url of
                              Inl e \<Rightarrow> False
                            | Inr (y, m) \<Rightarrow>
                                y > dt_year D \<or> (y = dt_year D \<and> m \<ge> dt_month D)) urls)
           = drop 3 (fst (process_all_modes get_data tz user s))))
   \<and> map archive_year_month example_archives =
        [Inr (2025, 10), Inr (2025, 11), Inr (2025, 12), Inr (2026, 1)]
   \<and> dt_year example_start_dt = 2025 \<and> dt_month example_start_dt = 11
   \<and> relevant_archives example_start_dt example_archives = Inr (tl example_archives)"
proof -
  let ?sel = "filter (\<lambda>url. case archive_year_month url of
                              Inl e \<Rightarrow> False
                            | Inr (y, m) \<Rightarrow>
                                y > dt_year D \<or> (y = dt_year D \<and> m \<ge> dt_month D)) urls"
  have 1: "relevant_archives D urls = Inr ?sel
      \<and> (strptime_ymd s = Some D \<and> timestamp tz D = Inr st
           \<and> get_data (archives_url user)
               = Some \<lparr>r_archives = Some urls, r_games = gs, r_other_keys = k\<rparr> \<longrightarrow>
         map Fetch ?sel = drop 3 (fst (process_all_modes get_data tz user s)))"
    if wf: "\<forall>url \<in> set urls. \<exists>y m. archive_year_month url = Inr (y, m)"
  proof -
    note sel = relevant_archives_filter [OF wf, of D]
    have "map Fetch ?sel = drop 3 (fst (process_all_modes get_data tz user s))"
      if "strptime_ymd s = Some D" and "timestamp tz D = Inr st"
        and "get_data (archives_url user)
               = Some \<lparr>r_archives = Some urls, r_games = gs, r_other_keys = k\<rparr>"
      using process_all_modes_fetches [where get_data = get_data and tz = tz and s = s
          and D = D and user = user and urls = urls and sel = "?sel" and gs = gs and k = k
          and st = st]
        that sel
      by simp
    with sel show ?thesis by blast
  qed
  have 2: "dt_year example_start_dt = 2025 \<and> dt_month example_start_dt = 11"
    by (simp add: example_start_dt_def)
  from 1 2 example_archives_year_month example_archives_selected show ?thesis by blast
qed

lemma example_network_index:
  "example_network (archives_url ''kxrook'')
     = Some \<lparr>r_archives = Some example_archives, r_games = None, r_other_keys = False\<rparr>"
  by (simp add: example_network_def)

theorem archive_selector_witness:
  "relevant_archives example_start_dt example_archives =
     Inr [''https://api.chess.com/pub/player/kxrook/games/2025/11'',
          ''https://api.chess.com/pub/player/kxrook/games/2025/12'',
          ''https://api.chess.com/pub/player/kxrook/games/2026/01'']
   \<and> drop 3 (fst (process_all_modes example_network 0 ''kxrook'' example_cutoff))
       = [Fetch ''https://api.chess.com/pub/player/kxrook/games/2025/11'',
          Fetch ''https://api.chess.com/pub/player/kxrook/games/2025/12'',
          Fetch ''https://api.chess.com/pub/player/kxrook/games/2026/01'']"
proof -
  let ?sel = "filter (\<lambda>url. case archive_year_month url of
                              Inl e \<Rightarrow> False
                            | Inr (y, m) \<Rightarrow>
                                y > dt_year example_start_dt
                                \<or> (y = dt_year example_start_dt \<and> m \<ge> dt_month example_start_dt))
               example_archives"
  have wf: "\<forall>url \<in> set example_archives. \<exists>y m. archive_year_month url = Inr (y, m)"
  proof
    fix url assume "url \<in> set example_archives"
    then have "archive_year_month url \<in> set (map archive_year_month example_archives)"
      by simp
    then show "\<exists>y m. archive_year_month url = Inr (y, m)"
      unfolding example_archives_year_month by auto
  qed
  have ym: "archive_year_month ''https://api.chess.com/pub/player/kxrook/games/2025/10'' = Inr (2025, 10)"
    "archive_year_month ''https://api.chess.com/pub/player/kxrook/games/2025/11'' = Inr (2025, 11)"
    "archive_year_month ''https://api.chess.com/pub/player/kxrook/games/2025/12'' = Inr (2025, 12)"
    "archive_year_month ''https://api.chess.com/pub/player/kxrook/games/2026/01'' = Inr (2026, 1)"
    using example_archives_year_month by (simp_all add: example_archives_def)
  have sel: "?sel = [''https://api.chess.com/pub/player/kxrook/games/2025/11'',
          ''https://api.chess.com/pub/player/kxrook/games/2025/12'',
          ''https://api.chess.com/pub/player/kxrook/games/2026/01'']"
    by (simp add: example_archives_def ym example_start_dt_def)
  from archive_selector [where urls = example_archives and D = example_start_dt
      and s = example_cutoff and get_data = example_network and user = "''kxrook''"
      and gs = None and k = False and tz = 0 and st = 1761955200]
    wf example_cutoff_Some example_cutoff_timestamp example_network_index
  have "relevant_archives example_start_dt example_archives = Inr ?sel
      \<and> map Fetch ?sel
          = drop 3 (fst (process_all_modes example_network 0 ''kxrook'' example_cutoff))"
    by blast
  then show ?thesis unfolding sel by simp
qed

subsection \<open>The overall daily series\<close>

lemma set_unique: "set (unique xs) = set xs"
  by (induction xs rule: unique.induct) auto

lemma distinct_unique: "distinct (unique xs)"
  by (induction xs rule: unique.induct) (auto simp add: set_unique)

lemma strict_sorted_sort_unique: "sorted_wrt (<) (sort (unique xs))"
  by (simp add: strict_sorted_iff distinct_unique)

lemma daily_stats_keys:
  "map DateOnly (daily_stats df) = sort (unique (map (\<lambda>r. to_datetime (dt_date (Date r))) df))"
  by (simp add: daily_stats_def Let_def comp_def)

lemma length_filter_split:
  "length (filter (\<lambda>x. P x \<and> Q x) xs) + length (filter (\<lambda>x. P x \<and> \<not> Q x) xs)
     = length (filter P xs)"
  by (induction xs) auto

lemma daily_stats_row:
  assumes "row \<in> set (daily_stats df)"
  shows "Wins row = length (filter (\<lambda>r. to_datetime (dt_date (Date r)) = DateOnly row
                                         \<and> Status r = Win) df)
     \<and> NonWins row = length (filter (\<lambda>r. to_datetime (dt_date (Date r)) = DateOnly row
                                         \<and> Status r \<noteq> Win) df)
     \<and> TotalGames row = Wins row + NonWins row"
proof -
  from assms obtain d where
    "row = (let x = map Status (filter (\<lambda>r. to_datetime (dt_date (Date r)) = d) df);
             wins = length (filter (\<lambda>s. s = Win) x);
             non_wins = length (filter (\<lambda>s. s \<noteq> Win) x);
             total = wins + non_wins
         in \<lparr>DateOnly = d, Wins = wins, NonWins = non_wins, TotalGames = total,
             WinPct = of_int (py_round (of_nat wins / of_nat total * 100 * 10)) / 10\<rparr>)"
    unfolding daily_stats_def by auto
  then show ?thesis
    by (simp add: Let_def filter_map comp_def)
qed

lemma example_overall_chart:
  "create_overall_performance_chart example_frame = Figure example_daily_rows"
  by code_simp

text \<open>
  Claim C6.  In the overall daily chart, every day's row counts the wins and the other
  games of that day, the two counts add up to the number of rows of the frame on that day,
  the days are in strictly ascending order, and the days of the chart are the days on
  which the frame has a row.
\<close>

theorem daily_overall_series:
  assumes "create_overall_performance_chart df = Figure rows"
  shows "(\<forall>row \<in> set rows.
            Wins row = length (filter (\<lambda>r. to_datetime (dt_date (Date r)) = DateOnly row
                                            \<and> Status r = Win) df)
          \<and> NonWins row = length (filter (\<lambda>r. to_datetime (dt_date (Date r)) = DateOnly row
                                               \<and> Status r \<noteq> Win) df)
          \<and> Wins row + NonWins row
              = length (filter (\<lambda>r. to_datetime (dt_date (Date r)) = DateOnly row) df)
          \<and> TotalGames row = Wins row + NonWins row)
     \<and> sorted_wrt (<) (map DateOnly rows)
     \<and> set (map DateOnly rows) = (\<lambda>r. to_datetime (dt_date (Date r))) ` set df"
proof -
  from assms have rows: "rows = daily_stats df"
    by (cases "df = []") (simp_all add: create_overall_performance_chart_def)
  have 1: "sorted_wrt (<) (map DateOnly rows)"
    unfolding rows daily_stats_keys by (rule strict_sorted_sort_unique)
  have 2: "set (map DateOnly rows) = (\<lambda>r. to_datetime (dt_date (Date r))) ` set df"
    unfolding rows daily_stats_keys by (simp add: set_unique)
  have 3: "Wins row = length (filter (\<lambda>r. to_datetime (dt_date (Date r)) = DateOnly row
                                            \<and> Status r = Win) df)
          \<and> NonWins row = length (filter (\<lambda>r. to_datetime (dt_date (Date r)) = DateOnly row
                                               \<and> Status r \<noteq> Win) df)
          \<and> Wins row + NonWins row
              = length (filter (\<lambda>r. to_datetime (dt_date (Date r)) = DateOnly row) df)
          \<and> TotalGames row = Wins row + NonWins row"
    if "row \<in> set rows" for row
    using daily_stats_row [of row df] that rows
      length_filter_split [of "\<lambda>r. to_datetime (dt_date (Date r)) = DateOnly row"
         "\<lambda>r. Status r = Win" df]
    by simp
  from 1 2 3 show ?thesis by blast
qed

theorem daily_overall_series_witness:
  "Wins (last example_daily_rows) + NonWins (last example_daily_rows)
     = length (filter (\<lambda>r. to_datetime (dt_date (Date r)) = DateOnly (last example_daily_rows))
                 example_frame)
   \<and> sorted_wrt (<) (map DateOnly example_daily_rows)"
proof -
  have "last example_daily_rows \<in> set example_daily_rows"
    by (simp add: example_daily_rows_def)
  with daily_overall_series [OF example_overall_chart] show ?thesis by blast
qed

subsection \<open>The weekly table\<close>

lemma weekly_stats_weeks:
  "map Week (weekly_stats fd v) = rev (sort (unique (map (\<lambda>r. week_start_time (Date r)) fd)))"
  by (simp add: weekly_stats_def Let_def comp_def)

lemma weekly_stats_row:
  assumes "row \<in> set (weekly_stats fd v)"
  shows "week_cells row =
     map (\<lambda>mode. (mode, week_cell_of (filter (\<lambda>r. week_start_time (Date r) = Week row) fd) mode))
       (mode_list v)"
  using assms unfolding weekly_stats_def Let_def by auto

lemma map_of_keyed:
  "m \<in> set ks \<Longrightarrow> map_of (map (\<lambda>k. (k, f k)) ks) m = Some (f m)"
  by (induction ks) auto

lemma weekly_stats_cell:
  assumes "row \<in> set (weekly_stats fd v)" and "m \<in> set (mode_list v)"
  shows "map_of (week_cells row) m =
     Some (week_cell_of (filter (\<lambda>r. week_start_time (Date r) = Week row) fd) m)"
  unfolding weekly_stats_row [OF assms(1)] using assms(2) by (rule map_of_keyed)

lemma cell_games_week_cell_of:
  "cell_games (week_cell_of wd m) = length (filter (\<lambda>r. Mode r = m) wd)"
  by (simp add: week_cell_of_def Let_def)

lemma week_cell_of_NoData:
  "week_cell_of wd m = NoData \<longleftrightarrow> \<not> (\<exists>r \<in> set wd. Mode r = m)"
  by (auto simp add: week_cell_of_def Let_def filter_empty_conv)

lemma sum_list_indicator:
  "distinct ks \<Longrightarrow>
     sum_list (map (\<lambda>k. if a = k \<and> b then (1::nat) else 0) ks) = (if a \<in> set ks \<and> b then 1 else 0)"
  by (induction ks) auto

lemma sum_length_filter_groups:
  assumes "distinct ks" and "f ` set xs \<subseteq> set ks"
  shows "sum_list (map (\<lambda>k. length (filter (\<lambda>x. f x = k \<and> P x) xs)) ks) = length (filter P xs)"
  using assms(2)
proof (induction xs)
  case Nil
  then show ?case by simp
next
  case (Cons x xs)
  have "sum_list (map (\<lambda>k. length (filter (\<lambda>x. f x = k \<and> P x) (x # xs))) ks)
      = sum_list (map (\<lambda>k. (if f x = k \<and> P x then 1 else 0)
                           + length (filter (\<lambda>x. f x = k \<and> P x) xs)) ks)"
    by (rule arg_cong [where f = sum_list]) (rule map_cong, simp_all)
  also have "\<dots> = sum_list (map (\<lambda>k. if f x = k \<and> P x then 1 else 0) ks)
      + sum_list (map (\<lambda>k. length (filter (\<lambda>x. f x = k \<and> P x) xs)) ks)"
    by (rule sum_list_addf)
  also have "\<dots> = (if P x then 1 else 0) + length (filter P xs)"
    using Cons sum_list_indicator [OF assms(1), of "f x" "P x"] by simp
  finally show ?case by simp
qed

lemma weekly_table_rows:
  assumes "create_weekly_stats_table df v = Figure rows"
  shows "rows = weekly_stats (filter (\<lambda>r. Is960 r = v) df) v"
  using assms
  by (cases "filter (\<lambda>r. Is960 r = v) df = []")
     (simp_all add: create_weekly_stats_table_def Let_def)

lemma weekly_stats_empty: "weekly_stats [] v = []"
  by (simp add: weekly_stats_def)

text \<open>
  The rows of the table of any frame: those of \<^verbatim>\<open>weekly_stats\<close> over the rows of the variant,
  none when the message is returned instead.
\<close>

lemma weekly_table_value:
  "(case create_weekly_stats_table df v of Figure rs \<Rightarrow> rs | Message msg \<Rightarrow> [])
     = weekly_stats (filter (\<lambda>r. Is960 r = v) df) v"
  by (cases "filter (\<lambda>r. Is960 r = v) df = []")
     (simp_all add: create_weekly_stats_table_def Let_def weekly_stats_empty)

text \<open>A table is built exactly when the frame has a row of the variant.\<close>

lemma weekly_table_produced:
  "create_weekly_stats_table df v =
     (if \<exists>r \<in> set df. Is960 r = v
      then Figure (weekly_stats (filter (\<lambda>r. Is960 r = v) df) v)
      else Message ''<p>No games found for this variant.</p>'')"
  by (simp add: create_weekly_stats_table_def Let_def filter_empty_conv)

lemma weekly_stats_nonempty:
  "weekly_stats fd v \<noteq> [] \<longleftrightarrow> fd \<noteq> []"
proof -
  have "weekly_stats fd v = [] \<longleftrightarrow> set (map Week (weekly_stats fd v)) = {}"
    by simp
  also have "\<dots> \<longleftrightarrow> fd = []"
    unfolding weekly_stats_weeks by (simp add: set_unique)
  finally show ?thesis by simp
qed

lemma weekly_sum_mode:
  assumes "m \<in> set (mode_list v)"
  shows "sum_list (map (\<lambda>row. case map_of (week_cells row) m of
                                None \<Rightarrow> 0 | Some c \<Rightarrow> cell_games c) (weekly_stats fd v))
     = length (filter (\<lambda>r. Mode r = m) fd)"
proof -
  let ?wk = "\<lambda>r. week_start_time (Date r)"
  let ?ks = "map Week (weekly_stats fd v)"
  have a: "map (\<lambda>row. case map_of (week_cells row) m of None \<Rightarrow> 0 | Some c \<Rightarrow> cell_games c)
          (weekly_stats fd v)
      = map (\<lambda>row. length (filter (\<lambda>r. ?wk r = Week row \<and> Mode r = m) fd)) (weekly_stats fd v)"
    by (rule map_cong) (simp_all add: weekly_stats_cell [OF _ assms] cell_games_week_cell_of)
  have b: "map (\<lambda>row. length (filter (\<lambda>r. ?wk r = Week row \<and> Mode r = m) fd)) (weekly_stats fd v)
      = map (\<lambda>k. length (filter (\<lambda>r. ?wk r = k \<and> Mode r = m) fd)) ?ks"
    by (simp add: comp_def)
  have "sum_list (map (\<lambda>row. case map_of (week_cells row) m of
                                None \<Rightarrow> 0 | Some c \<Rightarrow> cell_games c) (weekly_stats fd v))
      = sum_list (map (\<lambda>k. length (filter (\<lambda>r. ?wk r = k \<and> Mode r = m) fd)) ?ks)"
    by (simp only: a b)
  also have "\<dots> = length (filter (\<lambda>r. Mode r = m) fd)"
  proof (rule sum_length_filter_groups)
    show "distinct ?ks"
      unfolding weekly_stats_weeks by (simp add: distinct_unique)
    show "?wk ` set fd \<subseteq> set ?ks"
      unfolding weekly_stats_weeks by (simp add: set_unique)
  qed
  finally show ?thesis .
qed

lemma example_weekly_table:
  "create_weekly_stats_table example_frame False = Figure example_week_rows"
  by code_simp

text \<open>
  Claim C7.  For every frame and variant, let the rows be those of the weekly table, none
  when the function returns its message.  A table is returned exactly when the frame has a
  row of the variant, and then it has at least one row; the message is returned otherwise.
  The numbers of games that the rows report for a mode of the list add up to the number of
  rows of the frame of that mode and variant; the weeks are in strictly descending order;
  and every row has one entry for each mode of the list, in the order of the list.  That
  entry reports the number of rows of the frame of that week, mode and variant, and it is
  the no-data entry exactly when the frame has no such row.
\<close>

theorem weekly_table_counts:
  assumes "rows = (case create_weekly_stats_table df v of Figure rs \<Rightarrow> rs | Message msg \<Rightarrow> [])"
  shows "create_weekly_stats_table df v =
           (if \<exists>r \<in> set df. Is960 r = v then Figure rows
            else Message ''<p>No games found for this variant.</p>'')
     \<and> (rows \<noteq> []) = (\<exists>r \<in> set df. Is960 r = v)
     \<and> (\<forall>m \<in> set (mode_list v).
            sum_list (map (\<lambda>row. case map_of (week_cells row) m of
                                    None \<Rightarrow> 0 | Some c \<Rightarrow> cell_games c) rows)
              = length (filter (\<lambda>r. Is960 r = v \<and> Mode r = m) df))
     \<and> sorted_wrt (>) (map Week rows)
     \<and> (\<forall>row \<in> set rows.
           map fst (week_cells row) = mode_list v
           \<and> (\<forall>m \<in> set (mode_list v).
                 (\<exists>c. map_of (week_cells row) m = Some c
                       \<and> cell_games c
                           = length (filter (\<lambda>r. Is960 r = v
                                                 \<and> week_start_time (Date r) = Week row
                                                 \<and> Mode r = m) df))
                 \<and> (map_of (week_cells row) m = Some NoData)
                     = (\<not> (\<exists>r \<in> set df. Is960 r = v \<and> week_start_time (Date r) = Week row
                                          \<and> Mode r = m))))"
proof -
  let ?fd = "filter (\<lambda>r. Is960 r = v) df"
  have rows: "rows = weekly_stats ?fd v"
    unfolding assms by (rule weekly_table_value)
  have p: "create_weekly_stats_table df v =
           (if \<exists>r \<in> set df. Is960 r = v then Figure rows
            else Message ''<p>No games found for this variant.</p>'')"
    unfolding rows by (rule weekly_table_produced)
  have q: "(rows \<noteq> []) = (\<exists>r \<in> set df. Is960 r = v)"
    unfolding rows weekly_stats_nonempty by (simp add: filter_empty_conv)
  have 1: "sum_list (map (\<lambda>row. case map_of (week_cells row) m of
                                    None \<Rightarrow> 0 | Some c \<Rightarrow> cell_games c) rows)
              = length (filter (\<lambda>r. Is960 r = v \<and> Mode r = m) df)"
    if "m \<in> set (mode_list v)" for m
    unfolding rows weekly_sum_mode [OF that] by (simp add: conj_commute)
  have 2: "sorted_wrt (>) (map Week rows)"
    unfolding rows weekly_stats_weeks sorted_wrt_rev
    using strict_sorted_sort_unique [of "map (\<lambda>r. week_start_time (Date r)) ?fd"]
    by simp
  have 3: "map fst (week_cells row) = mode_list v" if "row \<in> set rows" for row
    using that unfolding rows by (simp add: weekly_stats_row comp_def)
  have 4: "(map_of (week_cells row) m = Some NoData)
             = (\<not> (\<exists>r \<in> set df. Is960 r = v \<and> week_start_time (Date r) = Week row \<and> Mode r = m))"
    if "row \<in> set rows" and "m \<in> set (mode_list v)" for row m
    using that unfolding rows
    by (auto simp add: weekly_stats_cell week_cell_of_NoData)
  have 5: "\<exists>c. map_of (week_cells row) m = Some c
             \<and> cell_games c
                 = length (filter (\<lambda>r. Is960 r = v \<and> week_start_time (Date r) = Week row
                                       \<and> Mode r = m) df)"
    if "row \<in> set rows" and "m \<in> set (mode_list v)" for row m
  proof -
    have f: "filter (\<lambda>r. Mode r = m) (filter (\<lambda>r. week_start_time (Date r) = Week row) ?fd)
        = filter (\<lambda>r. Is960 r = v \<and> week_start_time (Date r) = Week row \<and> Mode r = m) df"
      by (simp add: conj_commute conj_left_commute)
    from that have "map_of (week_cells row) m =
        Some (week_cell_of (filter (\<lambda>r. week_start_time (Date r) = Week row) ?fd) m)"
      unfolding rows by (rule weekly_stats_cell)
    then show ?thesis
      by (simp add: cell_games_week_cell_of f)
  qed
  from p q 1 2 3 4 5 show ?thesis by blast
qed

theorem weekly_table_counts_witness:
  "create_weekly_stats_table example_frame False = Figure example_week_rows
   \<and> sum_list (map (\<lambda>row. case map_of (week_cells row) ''Blitz'' of
                           None \<Rightarrow> 0 | Some c \<Rightarrow> cell_games c) example_week_rows)
     = length (filter (\<lambda>r. Is960 r = False \<and> Mode r = ''Blitz'') example_frame)
   \<and> sorted_wrt (>) (map Week example_week_rows)
   \<and> map fst (week_cells (last example_week_rows)) = mode_list False
   \<and> create_weekly_stats_table [example_record_no_rules] True
       = Message ''<p>No games found for this variant.</p>''"
proof -
  have e: "example_week_rows =
      (case create_weekly_stats_table example_frame False of Figure rs \<Rightarrow> rs | Message msg \<Rightarrow> [])"
    by (simp add: example_weekly_table)
  have m: "''Blitz'' \<in> set (mode_list False)"
    by (simp add: mode_list_def)
  have l: "last example_week_rows \<in> set example_week_rows"
    by (simp add: example_week_rows_def)
  have g: "\<exists>r \<in> set example_frame. Is960 r = False"
    by (simp add: example_frame_def)
  from weekly_table_counts [OF e] m l g
  have 1: "create_weekly_stats_table example_frame False = Figure example_week_rows
   \<and> sum_list (map (\<lambda>row. case map_of (week_cells row) ''Blitz'' of
                           None \<Rightarrow> 0 | Some c \<Rightarrow> cell_games c) example_week_rows)
     = length (filter (\<lambda>r. Is960 r = False \<and> Mode r = ''Blitz'') example_frame)
   \<and> sorted_wrt (>) (map Week example_week_rows)
   \<and> map fst (week_cells (last example_week_rows)) = mode_list False"
    by (simp only: if_True; blast?)
  have n: "\<not> (\<exists>r \<in> set [example_record_no_rules]. Is960 r = True)"
    by (simp add: example_record_no_rules_def)
  from weekly_table_counts [OF refl, of "[example_record_no_rules]" True] n
  have 2: "create_weekly_stats_table [example_record_no_rules] True
       = Message ''<p>No games found for this variant.</p>''"
    by (simp only: if_False; blast?)
  from 1 2 show ?thesis by blast
qed

subsection \<open>The week of a row\<close>

lemma day_bounds: "to_datetime (dt_date t) \<le> t \<and> t < to_datetime (dt_date t) + 86400"
proof -
  have "t = 86400 * (t div 86400) + t mod 86400" by simp
  moreover have "0 \<le> t mod 86400" and "t mod 86400 < 86400" by simp_all
  ultimately show ?thesis unfolding to_datetime_def dt_date_def by linarith
qed

lemma dt_date_to_datetime: "dt_date (to_datetime d) = d"
  by (simp add: dt_date_def to_datetime_def)

lemma monday_of_day:
  "weekday (d - weekday d) = 0 \<and> d - weekday d \<le> d \<and> d < d - weekday d + 7"
  unfolding weekday_def by presburger

lemma monday_unique:
  assumes "weekday m = 0" and "m \<le> d" and "d < m + 7"
  shows "d - weekday d = m"
  using assms unfolding weekday_def by presburger

lemma week_start_time_monday:
  "weekday (dt_date (week_start_time t)) = 0"
  by (simp add: week_start_time_def dt_date_to_datetime monday_of_day)

lemma week_start_time_bounds:
  "week_start_time t \<le> t \<and> t < week_start_time t + 7 * 86400"
proof -
  let ?d = "dt_date t"
  from monday_of_day [of ?d] have "?d - weekday ?d \<le> ?d" and "?d < ?d - weekday ?d + 7"
    by simp_all
  then have "to_datetime (?d - weekday ?d) \<le> to_datetime ?d"
    and "to_datetime ?d + 86400 \<le> to_datetime (?d - weekday ?d) + 7 * 86400"
    by (simp_all add: to_datetime_def algebra_simps)
  with day_bounds [of t] show ?thesis unfolding week_start_time_def by linarith
qed

lemma weekly_rows_distinct:
  "distinct (map Week (weekly_stats fd v))
   \<and> set (map Week (weekly_stats fd v)) = (\<lambda>r. week_start_time (Date r)) ` set fd"
  unfolding weekly_stats_weeks by (simp add: distinct_unique set_unique)

text \<open>A row of the frame has one row of the table, that of its week.\<close>

lemma weekly_row_of_record:
  assumes "r \<in> set fd"
  shows "\<exists>!row. row \<in> set (weekly_stats fd v) \<and> Week row = week_start_time (Date r)"
proof -
  let ?rows = "weekly_stats fd v"
  from assms have "week_start_time (Date r) \<in> set (map Week ?rows)"
    using weekly_rows_distinct [of fd v] by blast
  then obtain row where row: "row \<in> set ?rows" "Week row = week_start_time (Date r)"
    by auto
  have "inj_on Week (set ?rows)"
    using weekly_rows_distinct [of fd v] by (simp add: distinct_map)
  then have "row' = row"
    if "row' \<in> set ?rows" and "Week row' = week_start_time (Date r)" for row'
    using that row by (simp add: inj_on_def)
  with row show ?thesis by blast
qed

lemma weekly_rows_same_week:
  assumes "row1 \<in> set (weekly_stats fd v)" and "row2 \<in> set (weekly_stats fd v)"
  shows "(row1 = row2) = (Week row1 = Week row2)"
proof -
  have "inj_on Week (set (weekly_stats fd v))"
    using weekly_rows_distinct [of fd v] by (simp add: distinct_map)
  with assms show ?thesis by (auto simp add: inj_on_def)
qed

lemma example_monday:
  "weekday 20395 = 0 \<and> 20395 \<le> dt_date 1762500000 \<and> dt_date 1762500000 < 20395 + 7
   \<and> epoch_days \<lparr>dt_year = 2025, dt_month = 11, dt_day = 3\<rparr> = 20395"
  by code_simp

lemma example_weekdays:
  "weekday (epoch_days \<lparr>dt_year = 1970, dt_month = 1, dt_day = 1\<rparr>) = 3
   \<and> weekday (epoch_days \<lparr>dt_year = 2025, dt_month = 11, dt_day = 3\<rparr>) = 0"
  by code_simp

lemma example_frame_weeks:
  "week_start_time 1762170000 = 1762128000 \<and> week_start_time 1762173600 = 1762128000
   \<and> week_start_time 1762000000 = 1761523200"
  by code_simp

text \<open>
  Claim C10.  The week of a date-time is the midnight of a Monday, namely of the one
  Monday that is on or before the date and less than seven days before it (1970-01-01
  was a Thursday, 2025-11-03 a Monday).  For every frame and variant, let the rows be
  those of the weekly table, none when the function returns its message; a table is
  returned exactly when the frame has a row of the variant.  The table has one row for
  each such Monday on which a row of the frame of the variant falls, no Monday twice, so
  every row of the frame of the variant has exactly one row of the table, the one of its
  Monday.  The entries of a row of the table are computed from exactly the rows of the
  frame whose week is that Monday: a row of the frame whose mode is in the list is counted
  in the entry of its mode in the row of its Monday, and two rows of the frame are counted
  in the same row of the table if and only if they have the same Monday.
\<close>

theorem weekly_bucket_is_monday_week:
  assumes "rows = (case create_weekly_stats_table df v of Figure rs \<Rightarrow> rs | Message msg \<Rightarrow> [])"
  shows "weekday (dt_date (week_start_time t)) = 0
   \<and> week_start_time t = to_datetime (dt_date t - weekday (dt_date t))
   \<and> dt_date (week_start_time t) \<le> dt_date t
   \<and> dt_date t < dt_date (week_start_time t) + 7
   \<and> week_start_time t \<le> t \<and> t < week_start_time t + 7 * 86400
   \<and> (weekday m = 0 \<and> m \<le> dt_date t \<and> dt_date t < m + 7 \<longrightarrow> week_start_time t = to_datetime m)
   \<and> weekday (epoch_days \<lparr>dt_year = 1970, dt_month = 1, dt_day = 1\<rparr>) = 3
   \<and> weekday (epoch_days \<lparr>dt_year = 2025, dt_month = 11, dt_day = 3\<rparr>) = 0
   \<and> create_weekly_stats_table df v =
        (if \<exists>r \<in> set df. Is960 r = v then Figure rows
         else Message ''<p>No games found for this variant.</p>'')
   \<and> distinct (map Week rows)
   \<and> set (map Week rows) = (\<lambda>r. week_start_time (Date r)) ` {r \<in> set df. Is960 r = v}
   \<and> (\<forall>row \<in> set rows. \<forall>mode \<in> set (mode_list v).
         map_of (week_cells row) mode =
           Some (week_cell_of
                   (filter (\<lambda>r. Is960 r = v \<and> week_start_time (Date r) = Week row) df)
                   mode))
   \<and> (\<forall>r \<in> set df. Is960 r = v \<longrightarrow>
         (\<exists>!row. row \<in> set rows \<and> Week row = week_start_time (Date r))
         \<and> (\<forall>row \<in> set rows. Week row = week_start_time (Date r) \<longrightarrow>
               r \<in> set (filter (\<lambda>r'. Is960 r' = v \<and> week_start_time (Date r') = Week row) df)
               \<and> (Mode r \<in> set (mode_list v) \<longrightarrow>
                     (\<exists>c. map_of (week_cells row) (Mode r) = Some c \<and> c \<noteq> NoData
                           \<and> 0 < cell_games c))))
   \<and> (\<forall>r1 \<in> set df. \<forall>r2 \<in> set df. Is960 r1 = v \<and> Is960 r2 = v \<longrightarrow>
         (\<forall>row1 \<in> set rows. \<forall>row2 \<in> set rows.
             Week row1 = week_start_time (Date r1) \<and> Week row2 = week_start_time (Date r2) \<longrightarrow>
             (row1 = row2) = (week_start_time (Date r1) = week_start_time (Date r2))))"
proof -
  let ?fd = "filter (\<lambda>r. Is960 r = v) df"
  let ?wk = "\<lambda>r. week_start_time (Date r)"
  have 1: "weekday (dt_date (week_start_time t)) = 0"
    by (rule week_start_time_monday)
  have 2: "week_start_time t = to_datetime (dt_date t - weekday (dt_date t))"
    by (simp add: week_start_time_def)
  have 3: "dt_date (week_start_time t) \<le> dt_date t"
    and 4: "dt_date t < dt_date (week_start_time t) + 7"
    using monday_of_day [of "dt_date t"] by (simp_all add: 2 dt_date_to_datetime)
  have 5: "week_start_time t = to_datetime m"
    if "weekday m = 0 \<and> m \<le> dt_date t \<and> dt_date t < m + 7"
    using monday_unique [of m "dt_date t"] that by (simp add: 2)
  have rows: "rows = weekly_stats ?fd v"
    unfolding assms by (rule weekly_table_value)
  have p: "create_weekly_stats_table df v =
        (if \<exists>r \<in> set df. Is960 r = v then Figure rows
         else Message ''<p>No games found for this variant.</p>'')"
    unfolding rows by (rule weekly_table_produced)
  have a: "distinct (map Week rows)"
    unfolding rows using weekly_rows_distinct by blast
  have b: "set (map Week rows) = ?wk ` {r \<in> set df. Is960 r = v}"
    unfolding rows using weekly_rows_distinct [of ?fd v] by simp
  have c: "map_of (week_cells row) mode =
               Some (week_cell_of (filter (\<lambda>r. Is960 r = v \<and> ?wk r = Week row) df) mode)"
    if "row \<in> set rows" and "mode \<in> set (mode_list v)" for row mode
    using that unfolding rows by (simp add: weekly_stats_cell conj_commute)
  have d: "\<exists>!row. row \<in> set rows \<and> Week row = ?wk r"
    if "r \<in> set df" and "Is960 r = v" for r
    unfolding rows using that by (intro weekly_row_of_record) simp
  have e: "r \<in> set (filter (\<lambda>r'. Is960 r' = v \<and> ?wk r' = Week row) df)
           \<and> (Mode r \<in> set (mode_list v) \<longrightarrow>
                 (\<exists>c. map_of (week_cells row) (Mode r) = Some c \<and> c \<noteq> NoData
                       \<and> 0 < cell_games c))"
    if r: "r \<in> set df" "Is960 r = v" and row: "row \<in> set rows" "Week row = ?wk r" for r row
  proof -
    let ?wd = "filter (\<lambda>r'. Is960 r' = v \<and> ?wk r' = Week row) df"
    from r row(2) have m: "r \<in> set ?wd" by simp
    then have n: "filter (\<lambda>r'. Mode r' = Mode r) ?wd \<noteq> []"
      unfolding filter_empty_conv by blast
    have "week_cell_of ?wd (Mode r) \<noteq> NoData"
      unfolding week_cell_of_NoData using m by blast
    moreover have "0 < cell_games (week_cell_of ?wd (Mode r))"
      unfolding cell_games_week_cell_of using n by simp
    ultimately show ?thesis using m c [OF row(1)] by simp
  qed
  have f: "(row1 = row2) = (?wk r1 = ?wk r2)"
    if "row1 \<in> set rows" and "row2 \<in> set rows"
      and "Week row1 = ?wk r1 \<and> Week row2 = ?wk r2" for r1 r2 row1 row2
    using that weekly_rows_same_week [of row1 ?fd v row2] unfolding rows by simp
  have g: "\<forall>r \<in> set df. Is960 r = v \<longrightarrow>
         (\<exists>!row. row \<in> set rows \<and> Week row = ?wk r)
         \<and> (\<forall>row \<in> set rows. Week row = ?wk r \<longrightarrow>
               r \<in> set (filter (\<lambda>r'. Is960 r' = v \<and> ?wk r' = Week row) df)
               \<and> (Mode r \<in> set (mode_list v) \<longrightarrow>
                     (\<exists>c. map_of (week_cells row) (Mode r) = Some c \<and> c \<noteq> NoData
                           \<and> 0 < cell_games c)))"
    using d e by blast
  have h: "\<forall>r1 \<in> set df. \<forall>r2 \<in> set df. Is960 r1 = v \<and> Is960 r2 = v \<longrightarrow>
         (\<forall>row1 \<in> set rows. \<forall>row2 \<in> set rows.
             Week row1 = ?wk r1 \<and> Week row2 = ?wk r2 \<longrightarrow>
             (row1 = row2) = (?wk r1 = ?wk r2))"
    using f by blast
  have i: "\<forall>row \<in> set rows. \<forall>mode \<in> set (mode_list v).
         map_of (week_cells row) mode =
           Some (week_cell_of (filter (\<lambda>r. Is960 r = v \<and> ?wk r = Week row) df) mode)"
    using c by blast
  have j: "weekday m = 0 \<and> m \<le> dt_date t \<and> dt_date t < m + 7 \<longrightarrow> week_start_time t = to_datetime m"
    using 5 by blast
  note k = week_start_time_bounds [of t, THEN conjunct1]
    week_start_time_bounds [of t, THEN conjunct2]
    example_weekdays [THEN conjunct1] example_weekdays [THEN conjunct2]
  show ?thesis
    by (intro conjI) (fact 1 2 3 4 j p a b i g h k)+
qed

theorem weekly_bucket_is_monday_week_witness:
  "week_start_time 1762500000 = to_datetime 20395
   \<and> create_weekly_stats_table example_frame False = Figure example_week_rows
   \<and> distinct (map Week example_week_rows)
   \<and> (\<exists>!row. row \<in> set example_week_rows \<and> Week row = week_start_time 1762000000)
   \<and> (hd example_week_rows = last example_week_rows)
       = (week_start_time 1762170000 = week_start_time 1762000000)"
proof -
  have e: "example_week_rows =
      (case create_weekly_stats_table example_frame False of Figure rs \<Rightarrow> rs | Message msg \<Rightarrow> [])"
    by (simp add: example_weekly_table)
  let ?r1 = "\<lparr>Date = 1762170000, Rating = 1500, Mode = ''Blitz'', Status = Win, Is960 = False\<rparr>"
  let ?r2 = "\<lparr>Date = 1762000000, Rating = 1493, Mode = ''Blitz'', Status = Draw, Is960 = False\<rparr>"
  have r: "?r1 \<in> set example_frame" "?r2 \<in> set example_frame"
    "Is960 ?r1 = False" "Is960 ?r2 = False" "Date ?r1 = 1762170000" "Date ?r2 = 1762000000"
    by (simp_all add: example_frame_def)
  have g: "\<exists>r \<in> set example_frame. Is960 r = False"
    using r(1) by (rule rev_bexI) simp
  have w: "hd example_week_rows \<in> set example_week_rows"
    "last example_week_rows \<in> set example_week_rows"
    "Week (hd example_week_rows) = week_start_time 1762170000"
    "Week (last example_week_rows) = week_start_time 1762000000"
    by (simp_all add: example_week_rows_def example_frame_weeks)
  note t = weekly_bucket_is_monday_week [OF e, of 1762500000 20395]
  from t example_monday have 1: "week_start_time 1762500000 = to_datetime 20395"
    by blast
  from t have "create_weekly_stats_table example_frame False =
        (if \<exists>r \<in> set example_frame. Is960 r = False then Figure example_week_rows
         else Message ''<p>No games found for this variant.</p>'')"
    by - (elim conjE, assumption)
  with g have 2: "create_weekly_stats_table example_frame False = Figure example_week_rows"
    by (simp only: if_True)
  from t have 3: "distinct (map Week example_week_rows)"
    by - (elim conjE, assumption)
  from t have "\<forall>r \<in> set example_frame. Is960 r = False \<longrightarrow>
         (\<exists>!row. row \<in> set example_week_rows \<and> Week row = week_start_time (Date r))
         \<and> (\<forall>row \<in> set example_week_rows. Week row = week_start_time (Date r) \<longrightarrow>
               r \<in> set (filter (\<lambda>r'. Is960 r' = False \<and> week_start_time (Date r') = Week row)
                          example_frame)
               \<and> (Mode r \<in> set (mode_list False) \<longrightarrow>
                     (\<exists>c. map_of (week_cells row) (Mode r) = Some c \<and> c \<noteq> NoData
                           \<and> 0 < cell_games c)))"
    by - (elim conjE, assumption)
  from this [rule_format, OF r(2) r(4), THEN conjunct1]
  have 4: "\<exists>!row. row \<in> set example_week_rows \<and> Week row = week_start_time 1762000000"
    by (simp only: r(6))
  from t have "\<forall>r1 \<in> set example_frame. \<forall>r2 \<in> set example_frame.
         Is960 r1 = False \<and> Is960 r2 = False \<longrightarrow>
         (\<forall>row1 \<in> set example_week_rows. \<forall>row2 \<in> set example_week_rows.
             Week row1 = week_start_time (Date r1) \<and> Week row2 = week_start_time (Date r2) \<longrightarrow>
             (row1 = row2) = (week_start_time (Date r1) = week_start_time (Date r2)))"
    by - (elim conjE, assumption)
  from this [rule_format, OF r(1) r(2) _ w(1) w(2)] r(3,4) w(3,4)
  have 5: "(hd example_week_rows = last example_week_rows)
       = (week_start_time 1762170000 = week_start_time 1762000000)"
    by (simp only: r(5,6) simp_thms)
  from 1 2 3 4 5 show ?thesis by blast
qed

subsection \<open>The rating distribution\<close>

lemma display_names_960:
  "display_name True ''Rapid960'' = ''Rapid 960''"
  "display_name True ''Blitz960'' = ''Blitz 960''"
  "display_name True ''Bullet960'' = ''Bullet 960''"
  "display_name True ''Daily960'' = ''Daily 960''"
  by code_simp+

lemma display_name_inj:
  assumes "m \<in> set (box_mode_list v)" and "m' \<in> set (box_mode_list v)"
    and "display_name v m = display_name v m'"
  shows "m = m'"
proof (cases v)
  case True
  with assms(1,2) have
    "m = ''Rapid960'' \<or> m = ''Blitz960'' \<or> m = ''Bullet960'' \<or> m = ''Daily960''"
    "m' = ''Rapid960'' \<or> m' = ''Blitz960'' \<or> m' = ''Bullet960'' \<or> m' = ''Daily960''"
    by (simp_all add: box_mode_list_def)
  with assms(3) True show ?thesis
    by (elim disjE) (simp_all add: display_names_960)
next
  case False
  with assms(3) show ?thesis by (simp add: display_name_def)
qed

lemma box_traces_mem:
  "t \<in> set (box_traces fd v) \<longleftrightarrow>
     (\<exists>m \<in> set (box_mode_list v). filter (\<lambda>r. Mode r = m) fd \<noteq> []
        \<and> t = \<lparr>box_y = map Rating (filter (\<lambda>r. Mode r = m) fd),
                box_name = display_name v m,
                box_marker_color =
                  (case map_of color_map m of None \<Rightarrow> ''#888888'' | Some c \<Rightarrow> c)\<rparr>)"
  unfolding box_traces_def Let_def by auto

lemma box_traces_empty: "box_traces [] v = []"
  by (simp add: box_traces_def)

lemma boxplot_traces:
  "(case create_rating_boxplot df v of Figure ts \<Rightarrow> ts | Message msg \<Rightarrow> [])
     = box_traces (filter (\<lambda>r. Is960 r = v) df) v"
  by (cases "filter (\<lambda>r. Is960 r = v) df = []")
     (simp_all add: create_rating_boxplot_def Let_def box_traces_empty)

lemma box_mode_list_set: "set (box_mode_list v) = set (mode_list v)"
  by (cases v) (auto simp add: box_mode_list_def mode_list_def)

lemma example_boxplot:
  "create_rating_boxplot example_frame False = Figure example_box_traces"
  by code_simp

text \<open>
  Claim C8.  In the box plot of one variant, a mode of the list has a trace if and only if
  the frame has a row of that mode and variant; every trace belongs to a mode of the list
  and holds the ratings of the rows of that mode and variant, at least one.  The weekly
  table, in contrast, has an entry for every mode of the list in each of its rows.  The
  frames built by \<^verbatim>\<open>process_all_modes\<close> hold modes of the list only.
\<close>

theorem boxplot_modes:
  assumes "traces = (case create_rating_boxplot df v of Figure ts \<Rightarrow> ts | Message msg \<Rightarrow> [])"
  shows "(\<forall>m \<in> set (box_mode_list v).
            (\<exists>t \<in> set traces. box_name t = display_name v m)
              = (\<exists>r \<in> set df. Is960 r = v \<and> Mode r = m))
     \<and> (\<forall>t \<in> set traces. \<exists>m \<in> set (box_mode_list v).
            box_name t = display_name v m
            \<and> box_y t = map Rating (filter (\<lambda>r. Is960 r = v \<and> Mode r = m) df)
            \<and> box_y t \<noteq> [])
     \<and> (\<forall>rows. create_weekly_stats_table df v = Figure rows \<longrightarrow>
            (\<forall>row \<in> set rows. \<forall>m \<in> set (box_mode_list v).
               \<exists>c. map_of (week_cells row) m = Some c))
     \<and> (\<forall>get_data tz user s tr.
            process_all_modes get_data tz user s = (tr, Inr df) \<longrightarrow>
            (\<forall>r \<in> set df. Is960 r = v \<longrightarrow> Mode r \<in> set (box_mode_list v)))"
proof -
  let ?fd = "filter (\<lambda>r. Is960 r = v) df"
  have traces: "traces = box_traces ?fd v"
    unfolding assms by (rule boxplot_traces)
  have fm: "filter (\<lambda>r. Mode r = m) ?fd = filter (\<lambda>r. Is960 r = v \<and> Mode r = m) df" for m
    by (simp add: conj_commute)
  have 1: "(\<exists>t \<in> set traces. box_name t = display_name v m)
              = (\<exists>r \<in> set df. Is960 r = v \<and> Mode r = m)"
    if m: "m \<in> set (box_mode_list v)" for m
  proof
    assume "\<exists>t \<in> set traces. box_name t = display_name v m"
    then obtain t where t: "t \<in> set traces" and n: "box_name t = display_name v m" by blast
    from t obtain m' where m': "m' \<in> set (box_mode_list v)"
      and ne: "filter (\<lambda>r. Mode r = m') ?fd \<noteq> []"
      and n': "box_name t = display_name v m'"
      unfolding traces box_traces_mem by auto
    from display_name_inj [OF m m'] n n' have "m = m'" by simp
    with ne show "\<exists>r \<in> set df. Is960 r = v \<and> Mode r = m"
      by (auto simp add: filter_empty_conv)
  next
    assume "\<exists>r \<in> set df. Is960 r = v \<and> Mode r = m"
    then have "filter (\<lambda>r. Mode r = m) ?fd \<noteq> []"
      by (auto simp add: filter_empty_conv)
    with m have "\<lparr>box_y = map Rating (filter (\<lambda>r. Mode r = m) ?fd),
                box_name = display_name v m,
                box_marker_color =
                  (case map_of color_map m of None \<Rightarrow> ''#888888'' | Some c \<Rightarrow> c)\<rparr>
              \<in> set traces"
      unfolding traces box_traces_mem by blast
    then show "\<exists>t \<in> set traces. box_name t = display_name v m"
      by (rule rev_bexI) simp
  qed
  have 2: "\<exists>m \<in> set (box_mode_list v).
            box_name t = display_name v m
            \<and> box_y t = map Rating (filter (\<lambda>r. Is960 r = v \<and> Mode r = m) df)
            \<and> box_y t \<noteq> []"
    if "t \<in> set traces" for t
    using that unfolding traces box_traces_mem fm by auto
  have 3: "\<exists>c. map_of (week_cells row) m = Some c"
    if "create_weekly_stats_table df v = Figure rows" and "row \<in> set rows"
      and "m \<in> set (box_mode_list v)" for rows row m
    using that weekly_stats_cell [of row ?fd v m] weekly_table_rows [of df v rows]
    by (simp add: box_mode_list_set)
  have 4: "Mode r \<in> set (box_mode_list v)"
    if "process_all_modes get_data tz user s = (tr, Inr df)" and "r \<in> set df" and "Is960 r = v"
    for get_data tz user s tr r
  proof -
    from process_all_modes_row_game [OF that(1,2)] obtain st g where
      "process_game tz user st g = Some r" by blast
    from mode_names [OF this] that(3) show ?thesis
      by (cases v) (simp_all add: box_mode_list_def)
  qed
  from 1 2 3 4 show ?thesis by blast
qed

theorem boxplot_modes_witness:
  "(\<exists>t \<in> set example_box_traces. box_name t = display_name False ''Bullet'')
   \<and> \<not> (\<exists>t \<in> set example_box_traces. box_name t = display_name False ''Rapid'')
   \<and> (\<exists>c. map_of (week_cells (last example_week_rows)) ''Rapid'' = Some c)
   \<and> Mode example_record_960 \<in> set (box_mode_list True)"
proof -
  have t: "example_box_traces =
      (case create_rating_boxplot example_frame False of Figure ts \<Rightarrow> ts | Message msg \<Rightarrow> [])"
    by (simp add: example_boxplot)
  have m: "''Bullet'' \<in> set (box_mode_list False)" "''Rapid'' \<in> set (box_mode_list False)"
    by (simp_all add: box_mode_list_def)
  have r: "\<exists>r \<in> set example_frame. Is960 r = False \<and> Mode r = ''Bullet''"
    "\<not> (\<exists>r \<in> set example_frame. Is960 r = False \<and> Mode r = ''Rapid'')"
    by (simp_all add: example_frame_def)
  have l: "last example_week_rows \<in> set example_week_rows"
    by (simp add: example_week_rows_def)
  from boxplot_modes [OF t] m r l example_weekly_table
  have 1: "(\<exists>t \<in> set example_box_traces. box_name t = display_name False ''Bullet'')
   \<and> \<not> (\<exists>t \<in> set example_box_traces. box_name t = display_name False ''Rapid'')
   \<and> (\<exists>c. map_of (week_cells (last example_week_rows)) ''Rapid'' = Some c)"
    by blast
  have i: "example_record_960 \<in> set [example_record_960, example_record_no_rules]"
    "Is960 example_record_960 = True"
    by (simp_all add: example_record_960_def)
  from boxplot_modes [OF refl, where df = "[example_record_960, example_record_no_rules]"
      and v = True]
    example_run i
  have 2: "Mode example_record_960 \<in> set (box_mode_list True)"
    by blast
  from 1 2 show ?thesis by blast
qed

subsection \<open>The interval table\<close>

lemma insort_key_same_mode:
  assumes "\<forall>y \<in> set ys. Mode y = Mode x"
  shows "insort_key (\<lambda>r. (Mode r, Date r)) x ys = insort_key Date x ys"
  using assms by (induction ys) auto

lemma sort_key_same_mode:
  assumes "\<forall>y \<in> set ys. Mode y = m"
  shows "sort_key (\<lambda>r. (Mode r, Date r)) ys = sort_key Date ys"
  using assms
proof (induction ys)
  case Nil
  then show ?case by simp
next
  case (Cons y ys)
  then have "sort_key (\<lambda>r. (Mode r, Date r)) ys = sort_key Date ys" by simp
  moreover from Cons.prems have "\<forall>z \<in> set (sort_key Date ys). Mode z = Mode y" by simp
  ultimately show ?case by (simp add: insort_key_same_mode)
qed

lemma filter_mode_sorted:
  "filter (\<lambda>r. Mode r = m) (sort_key (\<lambda>r. (Mode r, Date r)) fd)
     = sort_key Date (filter (\<lambda>r. Mode r = m) fd)"
proof -
  have "filter (\<lambda>r. Mode r = m) (sort_key (\<lambda>r. (Mode r, Date r)) fd)
      = sort_key (\<lambda>r. (Mode r, Date r)) (filter (\<lambda>r. Mode r = m) fd)"
    by (rule filter_sort)
  also have "\<dots> = sort_key Date (filter (\<lambda>r. Mode r = m) fd)"
    by (rule sort_key_same_mode [where m = m]) simp
  finally show ?thesis .
qed

lemma filter_concat_keyed:
  assumes "distinct ks" and "\<And>k s. s \<in> set (g k) \<Longrightarrow> key s = k"
  shows "filter (\<lambda>s. key s = m) (concat (map g ks)) = (if m \<in> set ks then g m else [])"
  using assms(1)
proof (induction ks)
  case Nil
  then show ?case by simp
next
  case (Cons k ks)
  have same: "filter (\<lambda>s. key s = m) (g m) = g m"
    using assms(2) by (simp add: filter_id_conv)
  have other: "filter (\<lambda>s. key s = m) (g k) = []" if "k \<noteq> m"
    using assms(2) that by (auto simp add: filter_empty_conv)
  from Cons show ?case
    by (cases "k = m") (auto simp add: same other)
qed

lemma py_range_multiples:
  assumes "0 < N"
  shows "py_range N (L + 1) N = map (\<lambda>k. k * N) [1..<L div N + 1]"
proof (induction L)
  case 0
  from assms show ?case by (simp add: py_range_def)
next
  case (Suc L)
  show ?case
  proof (cases "N \<le> Suc L")
    case False
    then have "Suc L div N = 0" by simp
    with False show ?thesis by (simp add: py_range_def)
  next
    case True
    then have up: "[N..<Suc L + 1] = [N..<L + 1] @ [Suc L]" by simp
    have dvd: "((Suc L - N) mod N = 0) = (Suc L mod N = 0)"
      using True by (metis le_mod_geq)
    show ?thesis
    proof (cases "Suc L mod N = 0")
      case z: True
      then have d: "Suc L div N = Suc (L div N)" by (simp add: div_Suc)
      from z have "Suc (L div N) * N = Suc L"
        using d by (metis div_mult_mod_eq add.right_neutral)
      with Suc z dvd up d show ?thesis
        by (simp add: py_range_def)
    next
      case nz: False
      then have d: "Suc L div N = L div N" by (simp add: div_Suc)
      with Suc nz dvd up show ?thesis
        by (simp add: py_range_def)
    qed
  qed
qed

lemma py_round_nearest: "\<bar>of_int (py_round x) - x\<bar> \<le> 1 / 2"
proof -
  define d where "d = x - of_int \<lfloor>x\<rfloor>"
  have d: "0 \<le> d" "d < 1" unfolding d_def by linarith+
  have x: "x = of_int \<lfloor>x\<rfloor> + d" unfolding d_def by simp
  consider "d < 1 / 2" | "d > 1 / 2" | "d = 1 / 2" by linarith
  then show ?thesis
  proof cases
    case 1
    then have "py_round x = \<lfloor>x\<rfloor>" by (simp add: py_round_def Let_def d_def)
    with 1 d show ?thesis unfolding d_def by (simp; linarith?)
  next
    case 2
    then have "py_round x = \<lfloor>x\<rfloor> + 1" by (simp add: py_round_def Let_def d_def)
    with 2 d show ?thesis unfolding d_def by (simp; linarith?)
  next
    case 3
    then have "py_round x = \<lfloor>x\<rfloor> \<or> py_round x = \<lfloor>x\<rfloor> + 1"
      by (simp add: py_round_def Let_def d_def)
    with 3 show ?thesis unfolding d_def by (elim disjE) (simp; linarith?)+
  qed
qed


lemma interval_stats_mode:
  assumes "0 < N"
  shows "filter (\<lambda>s. Mode_of s = m) (interval_stats N sdf)
     = map (interval_row m (filter (\<lambda>r. Mode r = m) sdf))
         (py_range N (length (filter (\<lambda>r. Mode r = m) sdf) + 1) N)"
proof -
  let ?g = "\<lambda>mode. (let mode_data = filter (\<lambda>r. Mode r = mode) sdf in
         map (interval_row mode mode_data) (py_range N (length mode_data + 1) N))"
  have key: "Mode_of s = k" if "s \<in> set (?g k)" for k s
    using that by (auto simp add: Let_def interval_row_def)
  have "filter (\<lambda>s. Mode_of s = m) (interval_stats N sdf)
      = (if m \<in> set (unique (map Mode sdf)) then ?g m else [])"
    unfolding interval_stats_def
    by (rule filter_concat_keyed [OF distinct_unique key])
  moreover have "?g m = []" if "m \<notin> set (unique (map Mode sdf))"
  proof -
    from that have "filter (\<lambda>r. Mode r = m) sdf = []"
      by (auto simp add: set_unique filter_empty_conv)
    with assms show ?thesis by (simp add: py_range_def)
  qed
  ultimately show ?thesis by (auto simp add: Let_def)
qed

lemma interval_checkpoints:
  assumes "0 < N"
  shows "map Games_Played (filter (\<lambda>s. Mode_of s = m) (interval_stats N sdf))
     = map (\<lambda>k. k * N) [1..<length (filter (\<lambda>r. Mode r = m) sdf) div N + 1]"
proof -
  have gp: "map Games_Played (map (interval_row m md) cs) = cs" for md cs
    by (induction cs) (simp_all add: interval_row_def Let_def)
  show ?thesis
    unfolding interval_stats_mode [OF assms] gp py_range_multiples [OF assms] ..
qed

lemma interval_row_mem:
  assumes "0 < N" and "s \<in> set (filter (\<lambda>s. Mode_of s = m) (interval_stats N sdf))"
  shows "s = interval_row m (filter (\<lambda>r. Mode r = m) sdf) (Games_Played s)
     \<and> 0 < Games_Played s \<and> N dvd Games_Played s
     \<and> Games_Played s \<le> length (filter (\<lambda>r. Mode r = m) sdf)"
proof -
  let ?md = "filter (\<lambda>r. Mode r = m) sdf"
  from assms(2) obtain k where k: "k \<in> set [1..<length ?md div N + 1]"
    and s: "s = interval_row m ?md (k * N)"
    unfolding interval_stats_mode [OF assms(1)] py_range_multiples [OF assms(1)] by auto
  from s have g: "Games_Played s = k * N" by (simp add: interval_row_def Let_def)
  from k have "1 \<le> k" and "k \<le> length ?md div N" by auto
  then have "0 < k * N" and "k * N \<le> length ?md"
    using assms(1) by (simp_all add: less_eq_div_iff_mult_less_eq)
  with s g show ?thesis by simp
qed


lemma pivot_column_cells:
  "pivot_column idf gp m =
     map (\<lambda>g. case filter (\<lambda>s. Games_Played s = g) (filter (\<lambda>s. Mode_of s = m) idf) of
                 [] \<Rightarrow> Dash
               | row # rest \<Rightarrow> RatingWin (Average_Rating row) (Win_Pct row)) gp"
  by (cases "filter (\<lambda>s. Mode_of s = m) idf = []")
     (simp_all add: pivot_column_def Let_def map_replicate_const)

lemma filter_eq_distinct:
  "distinct cs \<Longrightarrow> filter (\<lambda>c. c = g) cs = (if g \<in> set cs then [g] else [])"
  by (induction cs) auto

lemma checkpoints_distinct:
  assumes "0 < N"
  shows "distinct (map (\<lambda>k. k * N) [1..<n])"
  using assms by (simp add: distinct_map inj_on_def)

lemma checkpoint_mem:
  assumes "0 < N"
  shows "g \<in> set (map (\<lambda>k. k * N) [1..<L div N + 1]) \<longleftrightarrow> 0 < g \<and> N dvd g \<and> g \<le> L"
proof
  assume "g \<in> set (map (\<lambda>k. k * N) [1..<L div N + 1])"
  then obtain k where "1 \<le> k" and "k \<le> L div N" and g: "g = k * N" by auto
  then have "0 < k * N" and "k * N \<le> L"
    using assms by (simp_all add: less_eq_div_iff_mult_less_eq)
  with g show "0 < g \<and> N dvd g \<and> g \<le> L" by simp
next
  assume a: "0 < g \<and> N dvd g \<and> g \<le> L"
  then obtain k where g: "g = k * N" by (auto simp add: dvd_def mult.commute)
  with a assms have "1 \<le> k" and "k \<le> L div N"
    by (simp_all add: less_eq_div_iff_mult_less_eq)
  with g show "g \<in> set (map (\<lambda>k. k * N) [1..<L div N + 1])" by auto
qed

lemma interval_cell:
  assumes "0 < N"
  shows "(case filter (\<lambda>s. Games_Played s = g)
                (filter (\<lambda>s. Mode_of s = m) (interval_stats N sdf)) of
            [] \<Rightarrow> Dash
          | row # rest \<Rightarrow> RatingWin (Average_Rating row) (Win_Pct row))
     = (if 0 < g \<and> N dvd g \<and> g \<le> length (filter (\<lambda>r. Mode r = m) sdf)
        then RatingWin (Average_Rating (interval_row m (filter (\<lambda>r. Mode r = m) sdf) g))
                       (Win_Pct (interval_row m (filter (\<lambda>r. Mode r = m) sdf) g))
        else Dash)"
proof -
  let ?md = "filter (\<lambda>r. Mode r = m) sdf"
  let ?cs = "map (\<lambda>k. k * N) [1..<length ?md div N + 1]"
  have gp: "Games_Played (interval_row m ?md c) = c" for c
    by (simp add: interval_row_def Let_def)
  have "filter (\<lambda>s. Games_Played s = g) (filter (\<lambda>s. Mode_of s = m) (interval_stats N sdf))
      = map (interval_row m ?md) (filter (\<lambda>c. c = g) ?cs)"
    unfolding interval_stats_mode [OF assms] py_range_multiples [OF assms]
    by (simp only: filter_map comp_def gp)
  also have "\<dots> = (if g \<in> set ?cs then [interval_row m ?md g] else [])"
    by (simp only: filter_eq_distinct [OF checkpoints_distinct [OF assms]]) simp
  finally show ?thesis
    unfolding checkpoint_mem [OF assms] by simp
qed

lemma count_reaches:
  assumes "0 < N" and "N \<le> count_list ks m"
  shows "\<exists>i < length ks. ks ! i = m \<and> count_list (take i ks) m = N - 1"
  using assms(2)
proof (induction ks rule: rev_induct)
  case Nil
  with assms(1) show ?case by simp
next
  case (snoc k ks)
  show ?case
  proof (cases "N \<le> count_list ks m")
    case True
    with snoc.IH obtain i where "i < length ks" and "ks ! i = m"
      and "count_list (take i ks) m = N - 1" by blast
    then show ?thesis
      by (intro exI [of _ i]) (simp add: nth_append)
  next
    case False
    with snoc.prems have "k = m" and "count_list ks m = N - 1"
      by (auto split: if_splits)
    then show ?thesis
      by (intro exI [of _ "length ks"]) simp
  qed
qed

lemma enough_games_interval:
  assumes "0 < N" and "N \<le> length (filter (\<lambda>r. Mode r = m) sdf)"
  shows "filter (\<lambda>c. c mod N = 0) (map (\<lambda>c. c + 1) (cumcount (map Mode sdf))) \<noteq> []"
proof -
  let ?ks = "map Mode sdf"
  have "count_list ?ks m = length (filter (\<lambda>r. Mode r = m) sdf)"
    by (induction sdf) simp_all
  with assms(2) have "N \<le> count_list ?ks m" by simp
  from count_reaches [OF assms(1) this] obtain i where i: "i < length ?ks"
    and "?ks ! i = m" and "count_list (take i ?ks) m = N - 1" by blast
  then have "cumcount ?ks ! i = N - 1"
    by (simp add: cumcount_def)
  with i assms(1) have "N \<in> set (map (\<lambda>c. c + 1) (cumcount ?ks))"
    by (auto simp add: cumcount_def image_iff intro!: bexI [of _ i])
  moreover have "N mod N = 0" by simp
  ultimately have "N \<in> set (filter (\<lambda>c. c mod N = 0) (map (\<lambda>c. c + 1) (cumcount ?ks)))"
    by (simp only: set_filter mem_Collect_eq)
  then show ?thesis by (metis empty_iff empty_set)
qed


lemma interval_table_Figure:
  assumes "create_interval_table N df v = Figure t"
  shows "it_games_played t =
           sort (unique (map Games_Played
             (interval_stats N (sort_key (\<lambda>r. (Mode r, Date r)) (filter (\<lambda>r. Is960 r = v) df)))))
     \<and> it_columns t =
           map (pivot_column
                  (interval_stats N (sort_key (\<lambda>r. (Mode r, Date r)) (filter (\<lambda>r. Is960 r = v) df)))
                  (it_games_played t))
             (mode_list v)"
  using assms unfolding create_interval_table_def Let_def
  by (auto split: if_splits)

lemma interval_table_Message:
  assumes "create_interval_table N df v = Message msg"
  shows "filter (\<lambda>r. Is960 r = v) df = []
     \<or> filter (\<lambda>c. c mod N = 0)
          (map (\<lambda>c. c + 1)
             (cumcount (map Mode
                (sort_key (\<lambda>r. (Mode r, Date r)) (filter (\<lambda>r. Is960 r = v) df))))) = []"
  using assms unfolding create_interval_table_def Let_def
  by (auto split: if_splits)


lemma interval_row_fields:
  assumes "c \<le> length md"
  shows "Average_Rating (interval_row m md c)
           = py_round (of_int (sum_list (map Rating (take c md))) / of_nat c)
     \<and> Win_Pct (interval_row m md c)
           = of_nat (length (filter (\<lambda>r. Status r = Win) (take c md))) / of_nat c * 100"
  using assms by (simp add: interval_row_def Let_def mean_def min_def)

lemma example_interval_Figure:
  "create_interval_table 2 example_frame False = Figure example_interval_table"
  by code_simp

lemma example_interval_Message:
  "create_interval_table GAME_INTERVAL example_frame False
     = Message ''<p>Not enough games to show intervals yet.</p>''"
  by code_simp

lemma example_frame_25_length:
  "length (sort_key Date (filter (\<lambda>r. Is960 r = False \<and> Mode r = ''Blitz'') example_frame_25)) = 25"
  by (simp add: example_frame_25_def filter_map comp_def)

lemma example_frame_blitz_length:
  "length (sort_key Date (filter (\<lambda>r. Is960 r = False \<and> Mode r = ''Blitz'') example_frame)) = 3"
  by (simp add: example_frame_def)

text \<open>
  Claim C1.  Let the interval be positive, let \<open>stats\<close> be the list of milestones that
  \<^verbatim>\<open>create_interval_table\<close> computes for one variant, and let \<open>mode_data\<close> be the rows
  of one mode and that variant, sorted by date.  The milestones of the mode are at the game
  counts N, 2N, ... up to the number of rows of the mode, in this order and at no other
  count.  The milestone at count c holds the mean rating of the first c rows, rounded to a
  nearest integer, and the number of wins among them divided by c, times 100.  A mode with
  fewer than N rows has no milestone; with N = 10, a mode with 25 rows has milestones at
  10 and 20 only.  In the table that is returned, the column of the mode has a value at
  exactly these counts and a dash at the others, every such count is a row of the table,
  and a message is returned instead of a table only when the mode has fewer than N rows.
\<close>

theorem interval_milestones:
  assumes N: "0 < N"
    and stats: "stats = interval_stats N (sort_key (\<lambda>r. (Mode r, Date r))
                                            (filter (\<lambda>r. Is960 r = v) df))"
    and md: "mode_data = sort_key Date (filter (\<lambda>r. Is960 r = v \<and> Mode r = m) df)"
  shows "sorted (map Date mode_data)
     \<and> mset mode_data = mset (filter (\<lambda>r. Is960 r = v \<and> Mode r = m) df)
     \<and> map Games_Played (filter (\<lambda>s. Mode_of s = m) stats)
         = map (\<lambda>k. k * N) [1..<length mode_data div N + 1]
     \<and> (\<forall>c. (\<exists>s \<in> set stats. Mode_of s = m \<and> Games_Played s = c)
              = (0 < c \<and> N dvd c \<and> c \<le> length mode_data))
     \<and> (\<forall>s \<in> set stats. Mode_of s = m \<longrightarrow>
           Average_Rating s
             = py_round (of_int (sum_list (map Rating (take (Games_Played s) mode_data)))
                           / of_nat (Games_Played s))
           \<and> \<bar>(of_int (Average_Rating s) :: rat)
                - of_int (sum_list (map Rating (take (Games_Played s) mode_data)))
                    / of_nat (Games_Played s)\<bar> \<le> 1 / 2
           \<and> Win_Pct s
               = of_nat (length (filter (\<lambda>r. Status r = Win) (take (Games_Played s) mode_data)))
                   / of_nat (Games_Played s) * 100)
     \<and> (length mode_data < N \<longrightarrow> filter (\<lambda>s. Mode_of s = m) stats = [])
     \<and> (N = 10 \<and> length mode_data = 25 \<longrightarrow>
           map Games_Played (filter (\<lambda>s. Mode_of s = m) stats) = [10, 20])
     \<and> (\<forall>t i. create_interval_table N df v = Figure t \<and> i < length (mode_list v)
                 \<and> mode_list v ! i = m \<longrightarrow>
           it_columns t ! i
             = map (\<lambda>g. if 0 < g \<and> N dvd g \<and> g \<le> length mode_data
                         then RatingWin
                                (py_round (of_int (sum_list (map Rating (take g mode_data)))
                                             / of_nat g))
                                (of_nat (length (filter (\<lambda>r. Status r = Win) (take g mode_data)))
                                   / of_nat g * 100)
                         else Dash)
                 (it_games_played t)
           \<and> (\<forall>c. 0 < c \<and> N dvd c \<and> c \<le> length mode_data \<longrightarrow> c \<in> set (it_games_played t)))
     \<and> (\<forall>msg. create_interval_table N df v = Message msg \<longrightarrow> length mode_data < N)"
proof -
  let ?fd = "filter (\<lambda>r. Is960 r = v) df"
  let ?sdf = "sort_key (\<lambda>r. (Mode r, Date r)) ?fd"
  let ?ms = "filter (\<lambda>s. Mode_of s = m) stats"
  have mode_data: "filter (\<lambda>r. Mode r = m) ?sdf = mode_data"
    unfolding md filter_mode_sorted by (simp add: conj_commute)
  have 1: "sorted (map Date mode_data)"
    unfolding md by (rule sorted_sort_key)
  have 2: "mset mode_data = mset (filter (\<lambda>r. Is960 r = v \<and> Mode r = m) df)"
    unfolding md by (rule mset_sort)
  have 3: "map Games_Played ?ms = map (\<lambda>k. k * N) [1..<length mode_data div N + 1]"
    unfolding stats interval_checkpoints [OF N] mode_data ..
  have 4: "(\<exists>s \<in> set stats. Mode_of s = m \<and> Games_Played s = c)
              = (0 < c \<and> N dvd c \<and> c \<le> length mode_data)" for c
  proof -
    have "(\<exists>s \<in> set stats. Mode_of s = m \<and> Games_Played s = c)
        = (c \<in> set (map Games_Played ?ms))"
      by auto
    also have "\<dots> = (0 < c \<and> N dvd c \<and> c \<le> length mode_data)"
      unfolding 3 by (rule checkpoint_mem [OF N])
    finally show ?thesis .
  qed
  have row: "s = interval_row m mode_data (Games_Played s)
      \<and> Games_Played s \<le> length mode_data"
    if "s \<in> set stats" and "Mode_of s = m" for s
  proof -
    from that have "s \<in> set (filter (\<lambda>s. Mode_of s = m) (interval_stats N ?sdf))"
      unfolding stats by simp
    from interval_row_mem [OF N this] show ?thesis
      unfolding mode_data by simp
  qed
  have 5: "Average_Rating s
             = py_round (of_int (sum_list (map Rating (take (Games_Played s) mode_data)))
                           / of_nat (Games_Played s))
           \<and> \<bar>(of_int (Average_Rating s) :: rat)
                - of_int (sum_list (map Rating (take (Games_Played s) mode_data)))
                    / of_nat (Games_Played s)\<bar> \<le> 1 / 2
           \<and> Win_Pct s
               = of_nat (length (filter (\<lambda>r. Status r = Win) (take (Games_Played s) mode_data)))
                   / of_nat (Games_Played s) * 100"
    if "s \<in> set stats" and "Mode_of s = m" for s
  proof -
    from row [OF that] have s: "s = interval_row m mode_data (Games_Played s)"
      and le: "Games_Played s \<le> length mode_data" by simp_all
    from interval_row_fields [OF le, of m] s
    have a: "Average_Rating s
             = py_round (of_int (sum_list (map Rating (take (Games_Played s) mode_data)))
                           / of_nat (Games_Played s))"
      and w: "Win_Pct s
               = of_nat (length (filter (\<lambda>r. Status r = Win) (take (Games_Played s) mode_data)))
                   / of_nat (Games_Played s) * 100"
      by simp_all
    from a py_round_nearest
    have "\<bar>(of_int (Average_Rating s) :: rat)
                - of_int (sum_list (map Rating (take (Games_Played s) mode_data)))
                    / of_nat (Games_Played s)\<bar> \<le> 1 / 2"
      by simp
    with a w show ?thesis by blast
  qed
  have 6: "?ms = []" if "length mode_data < N"
  proof -
    from that have "length mode_data div N = 0" by simp
    with 3 have "map Games_Played ?ms = []" by simp
    then show ?thesis by simp
  qed
  have 7: "map Games_Played ?ms = [10, 20]" if "N = 10 \<and> length mode_data = 25"
  proof -
    from that have "[1..<length mode_data div N + 1] = [1, 2]"
      by (simp add: upt_rec)
    with 3 that show ?thesis by simp
  qed
  have 8: "it_columns t ! i
             = map (\<lambda>g. if 0 < g \<and> N dvd g \<and> g \<le> length mode_data
                         then RatingWin
                                (py_round (of_int (sum_list (map Rating (take g mode_data)))
                                             / of_nat g))
                                (of_nat (length (filter (\<lambda>r. Status r = Win) (take g mode_data)))
                                   / of_nat g * 100)
                         else Dash)
                 (it_games_played t)
           \<and> (\<forall>c. 0 < c \<and> N dvd c \<and> c \<le> length mode_data \<longrightarrow> c \<in> set (it_games_played t))"
    if t: "create_interval_table N df v = Figure t \<and> i < length (mode_list v)
                 \<and> mode_list v ! i = m" for t i
  proof -
    from t interval_table_Figure [of N df v t] have
      gp: "it_games_played t = sort (unique (map Games_Played stats))"
      and cols: "it_columns t = map (pivot_column stats (it_games_played t)) (mode_list v)"
      unfolding stats by simp_all
    from t cols have "it_columns t ! i = pivot_column stats (it_games_played t) m"
      by auto
    also have "\<dots> = map (\<lambda>g. if 0 < g \<and> N dvd g \<and> g \<le> length mode_data
                         then RatingWin (Average_Rating (interval_row m mode_data g))
                                        (Win_Pct (interval_row m mode_data g))
                         else Dash)
                 (it_games_played t)"
      unfolding pivot_column_cells stats interval_cell [OF N] mode_data ..
    also have "\<dots> = map (\<lambda>g. if 0 < g \<and> N dvd g \<and> g \<le> length mode_data
                         then RatingWin
                                (py_round (of_int (sum_list (map Rating (take g mode_data)))
                                             / of_nat g))
                                (of_nat (length (filter (\<lambda>r. Status r = Win) (take g mode_data)))
                                   / of_nat g * 100)
                         else Dash)
                 (it_games_played t)"
      by (rule map_cong) (simp_all add: interval_row_fields)
    finally have a: "it_columns t ! i
             = map (\<lambda>g. if 0 < g \<and> N dvd g \<and> g \<le> length mode_data
                         then RatingWin
                                (py_round (of_int (sum_list (map Rating (take g mode_data)))
                                             / of_nat g))
                                (of_nat (length (filter (\<lambda>r. Status r = Win) (take g mode_data)))
                                   / of_nat g * 100)
                         else Dash)
                 (it_games_played t)" .
    have b: "c \<in> set (it_games_played t)"
      if "0 < c \<and> N dvd c \<and> c \<le> length mode_data" for c
    proof -
      from that 4 [of c] obtain s where "s \<in> set stats" and "Games_Played s = c" by blast
      then show ?thesis unfolding gp by (auto simp add: set_unique)
    qed
    from a b show ?thesis by blast
  qed
  have 9: "length mode_data < N" if msg: "create_interval_table N df v = Message msg" for msg
  proof (rule ccontr)
    assume "\<not> length mode_data < N"
    then have ge: "N \<le> length (filter (\<lambda>r. Mode r = m) ?sdf)"
      unfolding mode_data by simp
    with N have "filter (\<lambda>r. Mode r = m) ?sdf \<noteq> []" by auto
    then have "?fd \<noteq> []" by auto
    with interval_table_Message [OF msg] enough_games_interval [OF N ge]
    show False by simp
  qed
  from 1 2 3 4 5 6 7 8 9 show ?thesis by blast
qed

theorem interval_milestones_witness:
  "map Games_Played
     (filter (\<lambda>s. Mode_of s = ''Blitz'')
        (interval_stats 10 (sort_key (\<lambda>r. (Mode r, Date r))
                              (filter (\<lambda>r. Is960 r = False) example_frame_25)))) = [10, 20]
   \<and> (\<exists>s \<in> set (interval_stats 10 (sort_key (\<lambda>r. (Mode r, Date r))
                                        (filter (\<lambda>r. Is960 r = False) example_frame_25))).
         Mode_of s = ''Blitz'' \<and> Games_Played s = 20)
   \<and> 2 \<in> set (it_games_played example_interval_table)
   \<and> length (sort_key Date (filter (\<lambda>r. Is960 r = False \<and> Mode r = ''Bullet'') example_frame))
       < GAME_INTERVAL"
proof -
  have pos: "(0::nat) < 10" by simp
  from interval_milestones [OF pos refl refl, where df = example_frame_25
        and v = False and m = "''Blitz''"]
  have "\<forall>c. (\<exists>s \<in> set (interval_stats 10 (sort_key (\<lambda>r. (Mode r, Date r))
                                        (filter (\<lambda>r. Is960 r = False) example_frame_25))).
              Mode_of s = ''Blitz'' \<and> Games_Played s = c)
          = (0 < c \<and> 10 dvd c
             \<and> c \<le> length (sort_key Date
                          (filter (\<lambda>r. Is960 r = False \<and> Mode r = ''Blitz'') example_frame_25)))"
    by blast
  then have 0: "\<exists>s \<in> set (interval_stats 10 (sort_key (\<lambda>r. (Mode r, Date r))
                                        (filter (\<lambda>r. Is960 r = False) example_frame_25))).
         Mode_of s = ''Blitz'' \<and> Games_Played s = 20"
    unfolding example_frame_25_length by simp
  from interval_milestones [OF pos refl refl, where df = example_frame_25
        and v = False and m = "''Blitz''"]
  have "(10::nat) = 10
      \<and> length (sort_key Date
                  (filter (\<lambda>r. Is960 r = False \<and> Mode r = ''Blitz'') example_frame_25)) = 25
      \<longrightarrow> map Games_Played
     (filter (\<lambda>s. Mode_of s = ''Blitz'')
        (interval_stats 10 (sort_key (\<lambda>r. (Mode r, Date r))
                              (filter (\<lambda>r. Is960 r = False) example_frame_25)))) = [10, 20]"
    by blast
  with example_frame_25_length
  have 1: "map Games_Played
     (filter (\<lambda>s. Mode_of s = ''Blitz'')
        (interval_stats 10 (sort_key (\<lambda>r. (Mode r, Date r))
                              (filter (\<lambda>r. Is960 r = False) example_frame_25)))) = [10, 20]"
    by blast
  have i: "0 < length (mode_list False) \<and> mode_list False ! 0 = ''Blitz''"
    by (simp add: mode_list_def)
  have "(0::nat) < 2" by simp
  from interval_milestones [OF this refl refl, where df = example_frame and v = False
      and m = "''Blitz''"]
  have "\<forall>t i. create_interval_table 2 example_frame False = Figure t
            \<and> i < length (mode_list False) \<and> mode_list False ! i = ''Blitz'' \<longrightarrow>
          (\<forall>c. 0 < c \<and> 2 dvd c
                \<and> c \<le> length (sort_key Date
                             (filter (\<lambda>r. Is960 r = False \<and> Mode r = ''Blitz'') example_frame))
              \<longrightarrow> c \<in> set (it_games_played t))"
    by blast
  with example_interval_Figure i
  have "\<forall>c. 0 < c \<and> 2 dvd c
                \<and> c \<le> length (sort_key Date
                             (filter (\<lambda>r. Is960 r = False \<and> Mode r = ''Blitz'') example_frame))
              \<longrightarrow> c \<in> set (it_games_played example_interval_table)"
    by blast
  then have 2: "2 \<in> set (it_games_played example_interval_table)"
    unfolding example_frame_blitz_length by simp
  have "0 < GAME_INTERVAL" by (simp add: GAME_INTERVAL_def)
  from interval_milestones [OF this refl refl, where df = example_frame and v = False
      and m = "''Bullet''"] example_interval_Message
  have 3: "length (sort_key Date
                (filter (\<lambda>r. Is960 r = False \<and> Mode r = ''Bullet'') example_frame))
       < GAME_INTERVAL"
    by blast
  from 0 1 2 3 show ?thesis by blast
qed

end
